theory Spec2Isabelle
  imports Complex_Main
begin

section \<open>Chat application backend: rooms, messages and presence\<close>

text \<open>
  A shallow embedding of the Mongoose models (\<^verbatim>\<open>Room\<close>, \<^verbatim>\<open>Message\<close>, \<^verbatim>\<open>User\<close>), of the
  REST controllers and of the Socket.IO handlers that change them.

  Conventions of the embedding.
  \<^item> An \<^verbatim>\<open>ObjectId\<close> is the string its \<^verbatim>\<open>toString()\<close> gives, so equality of ids is
    equality of strings. The id of the authenticated user, the id of a room, the id of a
    message and the id of the other user of a direct room are such strings. The user id
    that a request for adding, inviting, removing or changing the role of a member carries
    in its payload is a value \<open>raw\<close>, as the client sent it: the source reads it in three
    ways (\<^verbatim>\<open>===\<close>, \<^verbatim>\<open>toString()\<close>, the cast to an \<^verbatim>\<open>ObjectId\<close>) that agree on the plain
    spelling of an id only.
  \<^item> A \<^verbatim>\<open>Number\<close> is a \<open>real\<close>; \<open>number\<close> adds \<^verbatim>\<open>NaN\<close> where a handler computes with a value
    of the payload that went through no validator.
  \<^item> A stored document holds the ids of the documents it refers to. \<^verbatim>\<open>populate\<close> puts the
    referred document in the place of the id (\<^verbatim>\<open>null\<close> when there is none). The
    \<^verbatim>\<open>toString()\<close> of a document is the document printed, never an id; where the source
    compares it with an id, the comparison fails.
  \<^item> A \<^verbatim>\<open>Date\<close> is its epoch time in milliseconds, an \<open>int\<close>. The clock (\<^verbatim>\<open>Date.now()\<close>,
    \<^verbatim>\<open>new Date()\<close>) is an argument \<open>now\<close> of every function that reads it.
  \<^item> A collection is the list of its documents in natural order; \<^verbatim>\<open>findById\<close> and
    \<^verbatim>\<open>findOne\<close> return the first match, \<^verbatim>\<open>save\<close> replaces the document with the same id
    or appends a new one.
  \<^item> A handler is a function from the database and the request to what it answers (a
    response, or the events it emits) and the database afterwards. A \<^verbatim>\<open>throw\<close> is a
    value \<open>Inl\<close> of a sum type, and the handler's \<^verbatim>\<open>catch\<close> is the branch on it.
  \<^item> A payload field that is absent or \<^verbatim>\<open>undefined\<close> is the empty string where the
    source only tests it for truthiness, and \<open>None\<close> where the source has a default.
  \<^item> \<^verbatim>\<open>find\<close> on an array of subdocuments returns the element itself, so an assignment to
    its fields changes the array. An array of plain objects keeps the object pushed to it;
    an array of subdocuments may keep a subdocument made from the object instead. The one
    function of the source whose result depends on this, \<open>addReaction\<close>, takes it as its
    argument \<open>sameObject\<close>, and the properties of it are proved for both values.
\<close>

type_synonym oid = string
type_synonym date = int

subsection \<open>Strings\<close>

text \<open>\<^verbatim>\<open>String.prototype.trim\<close>, on the white space and line terminators below U+0100.\<close>

definition isWhiteSpace :: "char \<Rightarrow> bool" where
  "isWhiteSpace c = (of_char c \<in> {9, 10, 11, 12, 13, 32, 160 :: nat})"

definition trim :: "string \<Rightarrow> string" where
  "trim s = rev (dropWhile isWhiteSpace (rev (dropWhile isWhiteSpace s)))"

subsection \<open>Arrays\<close>

text \<open>
  \<^verbatim>\<open>const x = xs.find(p); x.field = v\<close> changes the first element that satisfies \<open>p\<close>
  in place.
\<close>

fun updateFirst :: "('a \<Rightarrow> bool) \<Rightarrow> ('a \<Rightarrow> 'a) \<Rightarrow> 'a list \<Rightarrow> 'a list" where
  "updateFirst p f [] = []"
| "updateFirst p f (x # xs) = (if p x then f x # xs else x # updateFirst p f xs)"

subsection \<open>Errors\<close>

text \<open>What the models and the queries throw.\<close>

datatype model_error =
    OnlySenderCanEdit
  | ValidationError
  | AlreadyMember
  | MemberLimitReached
  | NotAMember
  | DuplicateKey
  | CastError
  | TypeError

subsection \<open>Values of a payload\<close>

text \<open>
  A user id as a request carries it: a string in any spelling, or an array of strings
  (the other values that JSON can hold in its place are not modelled). \<open>Oid\<close> is an id
  that the server itself passes on: the \<^verbatim>\<open>ObjectId\<close> \<^verbatim>\<open>req.user._id\<close>, or its text
  \<^verbatim>\<open>socket.userId\<close>, which the cast gives back.
\<close>

datatype raw = Oid oid | Str string | Arr "string list"

text \<open>\<^verbatim>\<open>Array.prototype.toString\<close>: the elements, separated by commas.\<close>

fun joinComma :: "string list \<Rightarrow> string" where
  "joinComma [] = []"
| "joinComma [x] = x"
| "joinComma (x # y # ys) = x @ '','' @ joinComma (y # ys)"

text \<open>\<^verbatim>\<open>v.toString()\<close>; \<open>truthy v\<close> is \<^verbatim>\<open>!!v\<close>; \<open>strictEq s v\<close> is \<^verbatim>\<open>s === v\<close> for a string \<open>s\<close>.\<close>

fun toString :: "raw \<Rightarrow> string" where
  "toString (Oid i) = i"
| "toString (Str s) = s"
| "toString (Arr xs) = joinComma xs"

fun truthy :: "raw \<Rightarrow> bool" where
  "truthy (Str s) = (s \<noteq> [])"
| "truthy _ = True"

fun strictEq :: "string \<Rightarrow> raw \<Rightarrow> bool" where
  "strictEq s (Str t) = (s = t)"
| "strictEq s _ = False"

text \<open>
  The ids of the model are short names where those of the program are 24 hexadecimal
  digits. A string is well formed as an id when it is a non-empty word of letters and
  digits, and the id it stands for is the word in lower case: the cast of the program
  reads the digits \<^verbatim>\<open>a\<close> to \<^verbatim>\<open>f\<close> in either case, and \<^verbatim>\<open>toString()\<close> of an \<^verbatim>\<open>ObjectId\<close> writes them
  in lower case. \<open>isMongoId\<close> is the validator of the routes, which checks every element of
  an array.
\<close>

definition lowerCase :: "char \<Rightarrow> char" where
  "lowerCase c =
     (case map_of (zip ''ABCDEFGHIJKLMNOPQRSTUVWXYZ'' ''abcdefghijklmnopqrstuvwxyz'') c of
        None \<Rightarrow> c
      | Some l \<Rightarrow> l)"

definition wellFormed :: "string \<Rightarrow> bool" where
  "wellFormed s =
     (s \<noteq> [] \<and>
      list_all (\<lambda>c. c \<in> set ''0123456789abcdefghijklmnopqrstuvwxyzABCDEFGHIJKLMNOPQRSTUVWXYZ'') s)"

fun isMongoId :: "raw \<Rightarrow> bool" where
  "isMongoId (Oid i) = True"
| "isMongoId (Str s) = wellFormed s"
| "isMongoId (Arr xs) = list_all wellFormed xs"

text \<open>
  The cast of a value to an \<^verbatim>\<open>ObjectId\<close> where a document takes it as the value of a path
  (\<^verbatim>\<open>castObjectId\<close>: an array is read through its \<^verbatim>\<open>toString()\<close>), and where a query takes
  it as the value of \<^verbatim>\<open>_id\<close> (\<open>castFilter\<close>: an array becomes \<^verbatim>\<open>$in\<close> of its elements). A value
  that cannot be cast is an error: thrown by the query, reported by the validation of
  \<^verbatim>\<open>save\<close>.
\<close>

fun castObjectId :: "raw \<Rightarrow> model_error + oid" where
  "castObjectId (Oid i) = Inr i"
| "castObjectId (Str s) = (if wellFormed s then Inr (map lowerCase s) else Inl CastError)"
| "castObjectId (Arr xs) =
     (if wellFormed (joinComma xs) then Inr (map lowerCase (joinComma xs)) else Inl CastError)"

fun castFilter :: "raw \<Rightarrow> model_error + oid list" where
  "castFilter (Oid i) = Inr [i]"
| "castFilter (Str s) = (if wellFormed s then Inr [map lowerCase s] else Inl CastError)"
| "castFilter (Arr xs) =
     (if list_all wellFormed xs then Inr (map (map lowerCase) xs) else Inl CastError)"



subsection \<open>The Message model\<close>

record reaction =
  emoji :: string
  users :: "oid list"
  count :: nat

record edit_entry =
  history_content :: string
  history_editedAt :: date

record read_entry =
  readBy_user :: oid
  readAt :: date

text \<open>
  The fields of \<^verbatim>\<open>messageSchema\<close> that the modelled code reads or writes; \<open>editedAt\<close> and
  \<open>editHistory\<close> are the two fields of \<^verbatim>\<open>metadata\<close> it touches, \<open>createdAt\<close> comes from
  \<^verbatim>\<open>timestamps: true\<close>.
\<close>

record message_doc =
  message_id :: oid
  content :: string
  sender :: oid
  room :: oid
  createdAt :: date
  editedAt :: "date option"
  editHistory :: "edit_entry list"
  reactions :: "reaction list"
  readBy :: "read_entry list"
  isDeleted :: bool
  deletedAt :: "date option"
  deletedBy :: "oid option"

text \<open>\<^verbatim>\<open>messageSchema.pre('save')\<close>: every reaction's count becomes the length of its users.\<close>

definition preSave_message :: "message_doc \<Rightarrow> message_doc" where
  "preSave_message m =
     m\<lparr>reactions := map (\<lambda>r. r\<lparr>count := length (users r)\<rparr>) (reactions m)\<rparr>"

text \<open>
  \<^verbatim>\<open>messageSchema.methods.addReaction\<close>: the entry for the emoji is looked up. When there
  is one, the user is pushed to its users unless already included. When there is none, a
  new object with no users is pushed to the reactions and the user is then pushed to that
  object: the new entry has the user when the array kept the object itself
  (\<open>sameObject\<close>), and has no users when the array kept a subdocument made from it.
  Then \<^verbatim>\<open>save\<close>.
\<close>

definition addReaction :: "bool \<Rightarrow> string \<Rightarrow> oid \<Rightarrow> message_doc \<Rightarrow> message_doc" where
  "addReaction sameObject e userId m =
     (case find (\<lambda>r. emoji r = e) (reactions m) of
        None \<Rightarrow>
          preSave_message
            (m\<lparr>reactions := reactions m @
                 [if sameObject then \<lparr>emoji = e, users = [userId], count = length [userId]\<rparr>
                  else \<lparr>emoji = e, users = [], count = 0\<rparr>]\<rparr>)
      | Some _ \<Rightarrow>
          preSave_message
            (m\<lparr>reactions := updateFirst (\<lambda>r. emoji r = e)
                 (\<lambda>r. if userId \<in> set (users r) then r
                      else r\<lparr>users := users r @ [userId],
                             count := length (users r @ [userId])\<rparr>) (reactions m)\<rparr>))"

text \<open>
  \<^verbatim>\<open>messageSchema.methods.removeReaction\<close>: the user is filtered out of the entry found
  for the emoji; when no user is left, every entry of that emoji is filtered out of the
  message; then \<^verbatim>\<open>save\<close>.
\<close>

definition removeReaction :: "string \<Rightarrow> oid \<Rightarrow> message_doc \<Rightarrow> message_doc" where
  "removeReaction e userId m =
     (case find (\<lambda>r. emoji r = e) (reactions m) of
        None \<Rightarrow> preSave_message m
      | Some r \<Rightarrow>
          (let us = filter (\<lambda>u. u \<noteq> userId) (users r);
               rs = updateFirst (\<lambda>r. emoji r = e)
                      (\<lambda>r. r\<lparr>users := us, count := length us\<rparr>) (reactions m);
               rs' = (if length us = 0 then filter (\<lambda>r. emoji r \<noteq> e) rs else rs)
           in preSave_message (m\<lparr>reactions := rs'\<rparr>)))"

text \<open>
  The schema validators of \<^verbatim>\<open>content\<close> (\<^verbatim>\<open>required\<close>, \<^verbatim>\<open>maxlength: 2000\<close>), which
  \<^verbatim>\<open>save\<close> runs when the path was modified.
\<close>

definition validContent :: "string \<Rightarrow> bool" where
  "validContent c = (c \<noteq> [] \<and> length c \<le> 2000)"

text \<open>
  \<^verbatim>\<open>messageSchema.methods.editContent\<close>: throws unless \<^verbatim>\<open>this.sender.toString()\<close> is the
  editor's id; pushes the current content to the edit history, sets the content (the
  schema's \<^verbatim>\<open>trim: true\<close> setter trims it) and \<^verbatim>\<open>editedAt\<close>; then \<^verbatim>\<open>save\<close>, which
  validates the new content. \<open>senderPopulated\<close> tells that the caller populated \<^verbatim>\<open>sender\<close>
  on the message: \<^verbatim>\<open>this.sender\<close> is then the sender's document and its \<^verbatim>\<open>toString()\<close> is
  no id.
\<close>

definition editContent ::
  "date \<Rightarrow> string \<Rightarrow> oid \<Rightarrow> bool \<Rightarrow> message_doc \<Rightarrow> model_error + message_doc" where
  "editContent now newContent editorId senderPopulated m =
     (if senderPopulated \<or> sender m \<noteq> editorId then Inl OnlySenderCanEdit
      else if \<not> validContent (trim newContent) then Inl ValidationError
      else Inr (preSave_message
             (m\<lparr>editHistory := editHistory m @
                    [\<lparr>history_content = content m, history_editedAt = now\<rparr>],
                content := trim newContent,
                editedAt := Some now\<rparr>)))"

definition deletedPlaceholder :: string where
  "deletedPlaceholder = ''This message has been deleted''"

text \<open>\<^verbatim>\<open>messageSchema.methods.softDelete\<close>.\<close>

definition softDelete :: "date \<Rightarrow> oid \<Rightarrow> message_doc \<Rightarrow> message_doc" where
  "softDelete now deleterId m =
     preSave_message
       (m\<lparr>isDeleted := True, deletedAt := Some now, deletedBy := Some deleterId,
          content := deletedPlaceholder\<rparr>)"

subsection \<open>The Room model\<close>

datatype role = Admin | Moderator | Member

datatype roomType = Direct | Group | Public

record member_doc =
  user :: oid
  role :: role
  joinedAt :: date
  lastReadAt :: date

record settings_doc =
  isPrivate :: bool
  allowInvites :: bool
  maxMembers :: real

text \<open>
  The fields of \<^verbatim>\<open>roomSchema\<close>, \<^verbatim>\<open>avatar\<close> apart (no modelled code reads it).
  \<open>maxMembers\<close> is a \<^verbatim>\<open>Number\<close>: the schema asks for no whole number.
\<close>

record room_doc =
  room_id :: oid
  name :: string
  description :: string
  room_type :: roomType
  creator :: oid
  members :: "member_doc list"
  settings :: settings_doc
  lastMessage :: "oid option"
  lastActivity :: date
  isActive :: bool


text \<open>\<^verbatim>\<open>roomSchema.methods.isMember\<close> and \<^verbatim>\<open>roomSchema.methods.isAdmin\<close>.\<close>

definition isMember :: "room_doc \<Rightarrow> oid \<Rightarrow> bool" where
  "isMember r userId = list_ex (\<lambda>m. user m = userId) (members r)"

definition isAdmin :: "room_doc \<Rightarrow> oid \<Rightarrow> bool" where
  "isAdmin r userId =
     (case find (\<lambda>m. user m = userId) (members r) of
        None \<Rightarrow> False
      | Some m \<Rightarrow> role m = Admin \<or> creator r = userId)"

text \<open>\<^verbatim>\<open>roomSchema.pre('save')\<close>.\<close>

definition preSave_room :: "date \<Rightarrow> room_doc \<Rightarrow> room_doc" where
  "preSave_room now r = r\<lparr>lastActivity := now\<rparr>"

text \<open>
  The schema validators of the paths a controller can set: \<^verbatim>\<open>name\<close> (required, 1 to 50),
  \<^verbatim>\<open>description\<close> (at most 200), \<^verbatim>\<open>settings.maxMembers\<close> (\<^verbatim>\<open>min: 2\<close>, \<^verbatim>\<open>max: 1000\<close>).
\<close>

definition validRoom :: "room_doc \<Rightarrow> bool" where
  "validRoom r =
     (name r \<noteq> [] \<and> length (name r) \<le> 50 \<and> length (description r) \<le> 200 \<and>
      2 \<le> maxMembers (settings r) \<and> maxMembers (settings r) \<le> 1000)"

text \<open>
  The methods below are the part of each \<^verbatim>\<open>roomSchema.methods\<close> function before
  \<^verbatim>\<open>return this.save()\<close>: the document as changed in memory, or the error thrown. The
  caller saves with \<open>Room_save\<close>, which runs the pre-save hook and writes the collection.
  The methods that only compare \<^verbatim>\<open>userId.toString()\<close> take that string.

  \<^verbatim>\<open>roomSchema.methods.addMember\<close> pushes the value it was given as the \<^verbatim>\<open>user\<close> of the new
  member, which the document casts; a value that cannot be cast fails the validation of
  its \<^verbatim>\<open>save\<close>.
\<close>

definition addMember :: "date \<Rightarrow> raw \<Rightarrow> role \<Rightarrow> room_doc \<Rightarrow> model_error + room_doc" where
  "addMember now userId newRole r =
     (case find (\<lambda>m. user m = toString userId) (members r) of
        Some _ \<Rightarrow> Inl AlreadyMember
      | None \<Rightarrow>
          if real (length (members r)) \<ge> maxMembers (settings r) then Inl MemberLimitReached
          else (case castObjectId userId of
                  Inl _ \<Rightarrow> Inl ValidationError
                | Inr i \<Rightarrow>
                    Inr (r\<lparr>members := members r @
                           [\<lparr>user = i, role = newRole, joinedAt = now, lastReadAt = now\<rparr>]\<rparr>)))"

definition removeMember :: "oid \<Rightarrow> room_doc \<Rightarrow> room_doc" where
  "removeMember userId r = r\<lparr>members := filter (\<lambda>m. user m \<noteq> userId) (members r)\<rparr>"

definition updateMemberRole :: "oid \<Rightarrow> role \<Rightarrow> room_doc \<Rightarrow> model_error + room_doc" where
  "updateMemberRole userId newRole r =
     (case find (\<lambda>m. user m = userId) (members r) of
        None \<Rightarrow> Inl NotAMember
      | Some _ \<Rightarrow>
          Inr (r\<lparr>members := updateFirst (\<lambda>m. user m = userId) (\<lambda>m. m\<lparr>role := newRole\<rparr>)
                              (members r)\<rparr>))"

text \<open>
  \<^verbatim>\<open>roomSchema.methods.updateLastRead\<close>: \<open>Some\<close> of the changed document when the user is
  a member (it is then saved), \<open>None\<close> when not (\<^verbatim>\<open>Promise.resolve(this)\<close>, no save).
\<close>

definition updateLastRead :: "date \<Rightarrow> oid \<Rightarrow> room_doc \<Rightarrow> room_doc option" where
  "updateLastRead now userId r =
     (case find (\<lambda>m. user m = userId) (members r) of
        None \<Rightarrow> None
      | Some _ \<Rightarrow>
          Some (r\<lparr>members := updateFirst (\<lambda>m. user m = userId) (\<lambda>m. m\<lparr>lastReadAt := now\<rparr>)
                               (members r)\<rparr>))"

subsection \<open>The User model\<close>

record user_doc =
  user_id :: oid
  username :: string
  status :: string
  lastSeen :: date
  user_isActive :: bool
  joinedRooms :: "oid list"

text \<open>
  \<^verbatim>\<open>userSchema.methods.updateStatus\<close>; its \<^verbatim>\<open>save\<close> validates the schema's \<^verbatim>\<open>enum\<close> of
  \<^verbatim>\<open>status\<close>.
\<close>

definition updateStatus :: "date \<Rightarrow> string \<Rightarrow> user_doc \<Rightarrow> model_error + user_doc" where
  "updateStatus now s u =
     (let u' = u\<lparr>status := s\<rparr>;
          u'' = (if s = ''offline'' then u'\<lparr>lastSeen := now\<rparr> else u')
      in if s \<in> set [''online'', ''offline'', ''away'', ''busy''] then Inr u''
         else Inl ValidationError)"

subsection \<open>The database\<close>

record db =
  User :: "user_doc list"
  Room :: "room_doc list"
  Message :: "message_doc list"

definition Message_findById :: "db \<Rightarrow> oid \<Rightarrow> message_doc option" where
  "Message_findById d i = find (\<lambda>m. message_id m = i) (Message d)"

definition Room_findById :: "db \<Rightarrow> oid \<Rightarrow> room_doc option" where
  "Room_findById d i = find (\<lambda>r. room_id r = i) (Room d)"

definition User_findById :: "db \<Rightarrow> oid \<Rightarrow> user_doc option" where
  "User_findById d i = find (\<lambda>u. user_id u = i) (User d)"

text \<open>\<^verbatim>\<open>User.findById\<close> of a value of the payload: the query casts it, or throws.\<close>

definition User_findById_cast :: "db \<Rightarrow> raw \<Rightarrow> model_error + user_doc option" where
  "User_findById_cast d v =
     (case castFilter v of
        Inl e \<Rightarrow> Inl e
      | Inr ids \<Rightarrow> Inr (find (\<lambda>u. user_id u \<in> set ids) (User d)))"

text \<open>Saving a document that was loaded from its collection replaces it there.\<close>

definition Message_save :: "message_doc \<Rightarrow> db \<Rightarrow> db" where
  "Message_save m d =
     d\<lparr>Message := map (\<lambda>x. if message_id x = message_id m then m else x) (Message d)\<rparr>"

definition User_save :: "user_doc \<Rightarrow> db \<Rightarrow> db" where
  "User_save u d = d\<lparr>User := map (\<lambda>x. if user_id x = user_id u then u else x) (User d)\<rparr>"

text \<open>
  The unique index \<^verbatim>\<open>{type: 1, 'members.user': 1}\<close> with
  \<^verbatim>\<open>partialFilterExpression: {type: 'direct'}\<close>: it has one key per member of every direct
  room, so a direct room conflicts with another direct room that shares a member.
\<close>

definition directKeyConflict :: "room_doc \<Rightarrow> room_doc list \<Rightarrow> bool" where
  "directKeyConflict r rs =
     (room_type r = Direct \<and>
      list_ex (\<lambda>x. room_id x \<noteq> room_id r \<and> room_type x = Direct \<and>
                   list_ex (\<lambda>m. list_ex (\<lambda>n. user n = user m) (members r)) (members x)) rs)"

text \<open>
  \<^verbatim>\<open>save\<close> of a room loaded from the collection: the pre-save hook, then the write. The
  index is checked when the write adds a key (\<open>newKeys\<close>: a member was added).
\<close>

definition Room_save :: "date \<Rightarrow> bool \<Rightarrow> room_doc \<Rightarrow> db \<Rightarrow> model_error + (room_doc \<times> db)" where
  "Room_save now newKeys r d =
     (let r' = preSave_room now r in
      if newKeys \<and> directKeyConflict r' (Room d) then Inl DuplicateKey
      else Inr (r', d\<lparr>Room := map (\<lambda>x. if room_id x = room_id r' then r' else x) (Room d)\<rparr>))"

text \<open>
  \<^verbatim>\<open>save\<close> of a new room: validation of all paths, the pre-save hook, then the insert,
  which the index on \<^verbatim>\<open>_id\<close> and the index of direct rooms can refuse.
\<close>

definition Room_insert :: "date \<Rightarrow> room_doc \<Rightarrow> db \<Rightarrow> model_error + (room_doc \<times> db)" where
  "Room_insert now r d =
     (let r' = preSave_room now r in
      if \<not> validRoom r then Inl ValidationError
      else if list_ex (\<lambda>x. room_id x = room_id r') (Room d) then Inl DuplicateKey
      else if directKeyConflict r' (Room d) then Inl DuplicateKey
      else Inr (r', d\<lparr>Room := Room d @ [r']\<rparr>))"

text \<open>
  \<^verbatim>\<open>User.findByIdAndUpdate\<close> with \<^verbatim>\<open>$addToSet\<close> and with \<^verbatim>\<open>$pull\<close> on \<^verbatim>\<open>joinedRooms\<close>: the
  query casts the id it is given, or throws, and updates the first user it matches.
\<close>

definition User_addJoinedRoom :: "raw \<Rightarrow> oid \<Rightarrow> db \<Rightarrow> model_error + db" where
  "User_addJoinedRoom userId roomId d =
     (case castFilter userId of
        Inl e \<Rightarrow> Inl e
      | Inr ids \<Rightarrow>
          Inr (d\<lparr>User := updateFirst (\<lambda>u. user_id u \<in> set ids)
                         (\<lambda>u. if roomId \<in> set (joinedRooms u) then u
                              else u\<lparr>joinedRooms := joinedRooms u @ [roomId]\<rparr>) (User d)\<rparr>))"

definition User_pullJoinedRoom :: "raw \<Rightarrow> oid \<Rightarrow> db \<Rightarrow> model_error + db" where
  "User_pullJoinedRoom userId roomId d =
     (case castFilter userId of
        Inl e \<Rightarrow> Inl e
      | Inr ids \<Rightarrow>
          Inr (d\<lparr>User := updateFirst (\<lambda>u. user_id u \<in> set ids)
                         (\<lambda>u. u\<lparr>joinedRooms := filter (\<lambda>x. x \<noteq> roomId) (joinedRooms u)\<rparr>)
                         (User d)\<rparr>))"

text \<open>
  \<^verbatim>\<open>roomSchema.statics.createDirectRoom\<close>: the first direct room whose members include
  both users, or a new one, created by the first user with both as admins.
\<close>

definition newDirectRoom :: "oid \<Rightarrow> date \<Rightarrow> oid \<Rightarrow> oid \<Rightarrow> room_doc" where
  "newDirectRoom newId now user1Id user2Id =
     \<lparr>room_id = newId, name = ''Direct Message'', description = '''',
      room_type = Direct, creator = user1Id,
      members = [\<lparr>user = user1Id, role = Admin, joinedAt = now, lastReadAt = now\<rparr>,
                 \<lparr>user = user2Id, role = Admin, joinedAt = now, lastReadAt = now\<rparr>],
      settings = \<lparr>isPrivate = True, allowInvites = False, maxMembers = 2\<rparr>,
      lastMessage = None, lastActivity = now, isActive = True\<rparr>"

definition createDirectRoom ::
  "oid \<Rightarrow> date \<Rightarrow> oid \<Rightarrow> oid \<Rightarrow> db \<Rightarrow> model_error + (room_doc \<times> db)" where
  "createDirectRoom newId now user1Id user2Id d =
     (case find (\<lambda>r. room_type r = Direct \<and> isMember r user1Id \<and> isMember r user2Id) (Room d) of
        Some existingRoom \<Rightarrow> Inr (existingRoom, d)
      | None \<Rightarrow> Room_insert now (newDirectRoom newId now user1Id user2Id) d)"

subsection \<open>Responses and events\<close>

text \<open>
  What a handler sends: the fields of the JSON body or of the event payload that
  identify the outcome. A REST response is its status code, its \<^verbatim>\<open>message\<close> and its
  \<^verbatim>\<open>data\<close>; an event is its recipients, its name and its payload.
\<close>

datatype payload =
    NoData
  | ErrorData string
  | IdData oid
  | RoomData room_doc
  | MessageData message_doc
  | EditedData oid string "date option" "edit_entry list"
  | DeletedData oid oid "date option"
  | ReactionData oid string oid "reaction list"
  | ReactionsData "reaction list"
  | ReadData oid oid "oid list"
  | StatusData string date
  | UserStatusData oid string
  | MemberData oid oid
  | RemovedData oid raw
  | RoleData oid raw role

datatype response = Response nat string payload

text \<open>
  \<open>ToSocket\<close> is \<^verbatim>\<open>socket.emit\<close>, \<open>ToRoom\<close> is \<^verbatim>\<open>io.to(room).emit\<close>, \<open>ToRoomOthers\<close> is
  \<^verbatim>\<open>socket.to(room).emit\<close>, \<open>ToAll\<close> is \<^verbatim>\<open>io.emit\<close>, \<open>ToUser\<close> and \<open>ToUserKey\<close> are
  \<^verbatim>\<open>sendToUser\<close>, called with an id and with a value of the payload.
\<close>

datatype recipients =
  ToSocket | ToRoom oid | ToRoomOthers oid | ToAll | ToUser oid | ToUserKey raw

datatype event = Emit recipients string payload

definition emitError :: "string \<Rightarrow> event" where
  "emitError msg = Emit ToSocket ''error'' (ErrorData msg)"

subsection \<open>Socket handlers of messages (\<^verbatim>\<open>chatHandlers.js\<close>)\<close>

text \<open>
  \<open>userId\<close> is \<^verbatim>\<open>socket.userId\<close>, the id of the authenticated user of the connection.
\<close>

definition editWindow :: int where
  "editWindow = 15 * 60 * 1000"

text \<open>
  \<^verbatim>\<open>socket.on('message:edit')\<close>, payload \<^verbatim>\<open>{messageId, content}\<close>. The handler loads
  the message with its sender populated: it reads the sender's id from the document
  (\<^verbatim>\<open>message.sender._id\<close>, which throws when there is no such user) and calls
  \<^verbatim>\<open>editContent\<close> on the message as loaded.
\<close>

definition on_message_edit :: "date \<Rightarrow> oid \<Rightarrow> oid \<Rightarrow> string \<Rightarrow> db \<Rightarrow> event list \<times> db" where
  "on_message_edit now userId messageId newContent d =
     (if messageId = [] \<or> newContent = [] \<or> length (trim newContent) = 0
      then ([emitError ''Message ID and content are required''], d)
      else case Message_findById d messageId of
        None \<Rightarrow> ([emitError ''Message not found''], d)
      | Some message \<Rightarrow>
          (case User_findById d (sender message) of
             None \<Rightarrow> ([emitError ''Failed to edit message''], d)
           | Some senderDoc \<Rightarrow>
               if user_id senderDoc \<noteq> userId
               then ([emitError ''You can only edit your own messages''], d)
               else if createdAt message < now - editWindow
               then ([emitError ''Message is too old to edit''], d)
               else (case editContent now (trim newContent) userId True message of
                 Inl _ \<Rightarrow> ([emitError ''Failed to edit message''], d)
               | Inr message' \<Rightarrow>
                   ([Emit (ToRoom (room message')) ''message:edited''
                       (EditedData (message_id message') (content message')
                          (editedAt message') (editHistory message')),
                     Emit ToSocket ''message:edit:success'' (IdData messageId)],
                    Message_save message' d))))"

text \<open>
  \<^verbatim>\<open>socket.on('message:delete')\<close>, payload \<^verbatim>\<open>{messageId}\<close>. When the room of the message
  does not exist and the user is not the sender, \<^verbatim>\<open>room.isAdmin\<close> throws.
\<close>

definition on_message_delete :: "date \<Rightarrow> oid \<Rightarrow> oid \<Rightarrow> db \<Rightarrow> event list \<times> db" where
  "on_message_delete now userId messageId d =
     (if messageId = [] then ([emitError ''Message ID is required''], d)
      else case Message_findById d messageId of
        None \<Rightarrow> ([emitError ''Message not found''], d)
      | Some message \<Rightarrow>
          (case (if sender message = userId then Inr True
                 else case Room_findById d (room message) of
                        None \<Rightarrow> Inl TypeError
                      | Some r \<Rightarrow> Inr (isAdmin r userId)) of
             Inl _ \<Rightarrow> ([emitError ''Failed to delete message''], d)
           | Inr canDelete \<Rightarrow>
               if \<not> canDelete then ([emitError ''You can only delete your own messages''], d)
               else let message' = softDelete now userId message in
                 ([Emit (ToRoom (room message')) ''message:deleted''
                     (DeletedData (message_id message') userId (deletedAt message')),
                   Emit ToSocket ''message:delete:success'' (IdData messageId)],
                  Message_save message' d)))"

text \<open>\<^verbatim>\<open>socket.on('message:react')\<close>, payload \<^verbatim>\<open>{messageId, emoji}\<close>.\<close>

definition on_message_react ::
  "bool \<Rightarrow> oid \<Rightarrow> oid \<Rightarrow> string \<Rightarrow> db \<Rightarrow> event list \<times> db" where
  "on_message_react sameObject userId messageId e d =
     (if messageId = [] \<or> e = [] then ([emitError ''Message ID and emoji are required''], d)
      else case Message_findById d messageId of
        None \<Rightarrow> ([emitError ''Message not found''], d)
      | Some message \<Rightarrow>
          (case Room_findById d (room message) of
             None \<Rightarrow> ([emitError ''Failed to add reaction''], d)
           | Some r \<Rightarrow>
               if \<not> isMember r userId
               then ([emitError ''You are not a member of this room''], d)
               else let message' = addReaction sameObject e userId message in
                 ([Emit (ToRoom (room message')) ''message:reaction:added''
                     (ReactionData (message_id message') e userId (reactions message'))],
                  Message_save message' d)))"

text \<open>\<^verbatim>\<open>socket.on('message:unreact')\<close>, payload \<^verbatim>\<open>{messageId, emoji}\<close>.\<close>

definition on_message_unreact :: "oid \<Rightarrow> oid \<Rightarrow> string \<Rightarrow> db \<Rightarrow> event list \<times> db" where
  "on_message_unreact userId messageId e d =
     (if messageId = [] \<or> e = [] then ([emitError ''Message ID and emoji are required''], d)
      else case Message_findById d messageId of
        None \<Rightarrow> ([emitError ''Message not found''], d)
      | Some message \<Rightarrow>
          let message' = removeReaction e userId message in
            ([Emit (ToRoom (room message')) ''message:reaction:removed''
                (ReactionData (message_id message') e userId (reactions message'))],
             Message_save message' d))"

text \<open>
  \<^verbatim>\<open>Message.updateMany\<close> of the two mark-read handlers: a read entry is pushed to every
  message of the room among \<open>messageIds\<close> that the user has not read.
\<close>

definition Message_markRead :: "date \<Rightarrow> oid \<Rightarrow> oid \<Rightarrow> oid list \<Rightarrow> db \<Rightarrow> db" where
  "Message_markRead now userId roomId messageIds d =
     d\<lparr>Message := map (\<lambda>m.
          if message_id m \<in> set messageIds \<and> room m = roomId \<and>
             \<not> list_ex (\<lambda>e. readBy_user e = userId) (readBy m)
          then m\<lparr>readBy := readBy m @ [\<lparr>readBy_user = userId, readAt = now\<rparr>]\<rparr>
          else m) (Message d)\<rparr>"

text \<open>
  \<^verbatim>\<open>socket.on('messages:mark_read')\<close>, payload \<^verbatim>\<open>{roomId, messageIds}\<close> (an absent
  \<^verbatim>\<open>messageIds\<close> is the empty list). The payload carries no time: the watermark is set
  from the clock.
\<close>

definition on_messages_mark_read ::
  "date \<Rightarrow> oid \<Rightarrow> oid \<Rightarrow> oid list \<Rightarrow> db \<Rightarrow> event list \<times> db" where
  "on_messages_mark_read now userId roomId messageIds d =
     (if roomId = [] then ([emitError ''Room ID is required''], d)
      else case Room_findById d roomId of
        None \<Rightarrow> ([emitError ''Room not found or access denied''], d)
      | Some r \<Rightarrow>
          if \<not> isMember r userId then ([emitError ''Room not found or access denied''], d)
          else (case (case updateLastRead now userId r of
                        None \<Rightarrow> Inr (r, d)
                      | Some r' \<Rightarrow> Room_save now False r' d) of
            Inl _ \<Rightarrow> ([emitError ''Failed to mark messages as read''], d)
          | Inr (_, d') \<Rightarrow>
              ([Emit (ToRoomOthers roomId) ''messages:read'' (ReadData userId roomId messageIds),
                Emit ToSocket ''messages:mark_read:success'' (IdData roomId)],
               if length messageIds > 0 then Message_markRead now userId roomId messageIds d'
               else d')))"

subsection \<open>REST controllers of messages (\<^verbatim>\<open>messageController.js\<close>)\<close>

text \<open>
  \<open>userId\<close> is \<^verbatim>\<open>req.user._id\<close>. The validators of the route run before the controller,
  which answers 400 when one failed.
\<close>

text \<open>\<^verbatim>\<open>updateMessageValidation\<close>: the content, trimmed, has 1 to 2000 characters.\<close>

definition updateMessageValidation :: "string \<Rightarrow> bool" where
  "updateMessageValidation c = (1 \<le> length (trim c) \<and> length (trim c) \<le> 2000)"

text \<open>\<^verbatim>\<open>reactionValidation\<close>: the emoji is not empty and has 1 to 10 characters.\<close>

definition reactionValidation :: "string \<Rightarrow> bool" where
  "reactionValidation e = (e \<noteq> [] \<and> 1 \<le> length e \<and> length e \<le> 10)"

definition updateMessage :: "date \<Rightarrow> oid \<Rightarrow> oid \<Rightarrow> string \<Rightarrow> db \<Rightarrow> response \<times> db" where
  "updateMessage now userId messageId newContent d =
     (if \<not> updateMessageValidation newContent
      then (Response 400 ''Validation failed'' NoData, d)
      else case Message_findById d messageId of
        None \<Rightarrow> (Response 404 ''Message not found'' NoData, d)
      | Some message \<Rightarrow>
          if isDeleted message then (Response 404 ''Message not found'' NoData, d)
          else if sender message \<noteq> userId
          then (Response 403 ''You can only edit your own messages'' NoData, d)
          else if createdAt message < now - editWindow
          then (Response 400 ''Message is too old to edit'' NoData, d)
          else (case editContent now (trim (trim newContent)) userId False message of
            Inl _ \<Rightarrow> (Response 500 ''Failed to update message'' NoData, d)
          | Inr message' \<Rightarrow>
              (Response 200 ''Message updated successfully'' (MessageData message'),
               Message_save message' d)))"

definition deleteMessage :: "date \<Rightarrow> oid \<Rightarrow> oid \<Rightarrow> db \<Rightarrow> response \<times> db" where
  "deleteMessage now userId messageId d =
     (case Message_findById d messageId of
        None \<Rightarrow> (Response 404 ''Message not found'' NoData, d)
      | Some message \<Rightarrow>
          if isDeleted message then (Response 404 ''Message not found'' NoData, d)
          else (case (if sender message = userId then Inr True
                      else case Room_findById d (room message) of
                             None \<Rightarrow> Inl TypeError
                           | Some r \<Rightarrow> Inr (isAdmin r userId)) of
            Inl _ \<Rightarrow> (Response 500 ''Failed to delete message'' NoData, d)
          | Inr canDelete \<Rightarrow>
              if \<not> canDelete
              then (Response 403 ''You can only delete your own messages'' NoData, d)
              else (Response 200 ''Message deleted successfully'' NoData,
                    Message_save (softDelete now userId message) d)))"

definition addReaction_controller ::
  "bool \<Rightarrow> oid \<Rightarrow> oid \<Rightarrow> string \<Rightarrow> db \<Rightarrow> response \<times> db" where
  "addReaction_controller sameObject userId messageId e d =
     (if \<not> reactionValidation e then (Response 400 ''Validation failed'' NoData, d)
      else case Message_findById d messageId of
        None \<Rightarrow> (Response 404 ''Message not found'' NoData, d)
      | Some message \<Rightarrow>
          if isDeleted message then (Response 404 ''Message not found'' NoData, d)
          else (case Room_findById d (room message) of
            None \<Rightarrow> (Response 403 ''Access denied'' NoData, d)
          | Some r \<Rightarrow>
              if \<not> isMember r userId then (Response 403 ''Access denied'' NoData, d)
              else let message' = addReaction sameObject e userId message in
                (Response 200 ''Reaction added successfully'' (ReactionsData (reactions message')),
                 Message_save message' d)))"

text \<open>
  \<^verbatim>\<open>removeReaction\<close> of the controller does not read \<^verbatim>\<open>validationResult\<close>: the route's
  \<^verbatim>\<open>reactionValidation\<close> does not stop the request.
\<close>

definition removeReaction_controller :: "oid \<Rightarrow> oid \<Rightarrow> string \<Rightarrow> db \<Rightarrow> response \<times> db" where
  "removeReaction_controller userId messageId e d =
     (case Message_findById d messageId of
        None \<Rightarrow> (Response 404 ''Message not found'' NoData, d)
      | Some message \<Rightarrow>
          if isDeleted message then (Response 404 ''Message not found'' NoData, d)
          else let message' = removeReaction e userId message in
            (Response 200 ''Reaction removed successfully'' (ReactionsData (reactions message')),
             Message_save message' d))"

definition markAsRead :: "date \<Rightarrow> oid \<Rightarrow> oid \<Rightarrow> oid list \<Rightarrow> db \<Rightarrow> response \<times> db" where
  "markAsRead now userId roomId messageIds d =
     (case Room_findById d roomId of
        None \<Rightarrow> (Response 404 ''Room not found'' NoData, d)
      | Some r \<Rightarrow>
          if \<not> isMember r userId
          then (Response 403 ''You are not a member of this room'' NoData, d)
          else (case (case updateLastRead now userId r of
                        None \<Rightarrow> Inr (r, d)
                      | Some r' \<Rightarrow> Room_save now False r' d) of
            Inl _ \<Rightarrow> (Response 500 ''Failed to mark messages as read'' NoData, d)
          | Inr (_, d') \<Rightarrow>
              (Response 200 ''Messages marked as read'' NoData,
               if length messageIds > 0 then Message_markRead now userId roomId messageIds d'
               else d')))"

subsection \<open>REST controllers of rooms (\<^verbatim>\<open>roomController.js\<close>)\<close>


record settings_body =
  set_isPrivate :: "bool option"
  set_allowInvites :: "bool option"
  set_maxMembers :: "int option"

record updateRoom_body =
  update_name :: "string option"
  update_description :: "string option"
  update_settings :: "settings_body option"





text \<open>
  \<^verbatim>\<open>updateRoom\<close>: \<open>applySettings\<close> and \<open>applyUpdate\<close> are its assignments to the
  room, field by field where the body has the field. The paths it sets passed the
  route's validators, which are the schema's, so the save does not fail on them.
\<close>

definition applySettings :: "settings_body \<Rightarrow> settings_doc \<Rightarrow> settings_doc" where
  "applySettings st s =
     (let s1 = (case set_isPrivate st of None \<Rightarrow> s | Some p \<Rightarrow> s\<lparr>isPrivate := p\<rparr>);
          s2 = (case set_allowInvites st of None \<Rightarrow> s1 | Some a \<Rightarrow> s1\<lparr>allowInvites := a\<rparr>)
      in case set_maxMembers st of
           None \<Rightarrow> s2
         | Some n \<Rightarrow> s2\<lparr>maxMembers := min (of_int n) 1000\<rparr>)"

definition applyUpdate :: "updateRoom_body \<Rightarrow> room_doc \<Rightarrow> room_doc" where
  "applyUpdate b r =
     (let r1 = (case update_name b of None \<Rightarrow> r | Some s \<Rightarrow> r\<lparr>name := trim (trim s)\<rparr>);
          r2 = (case update_description b of
                  None \<Rightarrow> r1 | Some s \<Rightarrow> r1\<lparr>description := trim (trim s)\<rparr>)
      in case update_settings b of
           None \<Rightarrow> r2 | Some st \<Rightarrow> r2\<lparr>settings := applySettings st (settings r2)\<rparr>)"




definition leaveRoom :: "date \<Rightarrow> oid \<Rightarrow> oid \<Rightarrow> db \<Rightarrow> response \<times> db" where
  "leaveRoom now userId roomId d =
     (case Room_findById d roomId of
        None \<Rightarrow> (Response 404 ''Room not found'' NoData, d)
      | Some r \<Rightarrow>
          if \<not> isMember r userId
          then (Response 400 ''You are not a member of this room'' NoData, d)
          else if creator r = userId
          then (Response 400
                  ''Room creator cannot leave the room. Transfer ownership or delete the room instead.''
                  NoData, d)
          else (case Room_save now False (removeMember userId r) d of
                  Inl _ \<Rightarrow> (Response 500 ''Failed to leave room'' NoData, d)
                | Inr (r', d') \<Rightarrow>
                    (case User_pullJoinedRoom (Oid userId) (room_id r') d' of
                       Inl _ \<Rightarrow> (Response 500 ''Failed to leave room'' NoData, d')
                     | Inr d'' \<Rightarrow> (Response 200 ''Left room successfully'' NoData, d''))))"


text \<open>
  \<^verbatim>\<open>removeMember\<close> of the controller. It does not read \<^verbatim>\<open>validationResult\<close>, so
  \<open>userIdToRemove\<close> is whatever the body has, \<open>None\<close> when it has no such field (then
  \<^verbatim>\<open>userId.toString()\<close> throws in \<^verbatim>\<open>room.removeMember\<close>). The test for the creator is
  \<^verbatim>\<open>room.creator.toString() === userIdToRemove\<close>; the member is removed by
  \<^verbatim>\<open>userIdToRemove.toString()\<close>.
\<close>

definition removeMember_controller ::
  "date \<Rightarrow> oid \<Rightarrow> oid \<Rightarrow> raw option \<Rightarrow> db \<Rightarrow> response \<times> db" where
  "removeMember_controller now userId roomId userIdToRemove d =
     (case Room_findById d roomId of
        None \<Rightarrow> (Response 404 ''Room not found'' NoData, d)
      | Some r \<Rightarrow>
          if \<not> isAdmin r userId then (Response 403 ''Admin privileges required'' NoData, d)
          else (case userIdToRemove of
             None \<Rightarrow> (Response 500 ''Failed to remove member'' NoData, d)
           | Some v \<Rightarrow>
               if strictEq (creator r) v
               then (Response 400 ''Cannot remove room creator'' NoData, d)
               else (case Room_save now False (removeMember (toString v) r) d of
                  Inl _ \<Rightarrow> (Response 500 ''Failed to remove member'' NoData, d)
                | Inr (r', d') \<Rightarrow>
                    (case User_pullJoinedRoom v (room_id r') d' of
                       Inl _ \<Rightarrow> (Response 500 ''Failed to remove member'' NoData, d')
                     | Inr d'' \<Rightarrow>
                         (Response 200 ''Member removed successfully'' NoData, d'')))))"

text \<open>
  \<^verbatim>\<open>updateMemberRole\<close> of the controller, after the validators of the route
  (\<^verbatim>\<open>isMongoId\<close> on \<^verbatim>\<open>userIdToUpdate\<close>, \<^verbatim>\<open>isIn\<close> on \<^verbatim>\<open>newRole\<close>). The test for the creator is
  \<^verbatim>\<open>room.creator.toString() === userIdToUpdate\<close>; the member is found by
  \<^verbatim>\<open>userIdToUpdate.toString()\<close>.
\<close>

definition updateMemberRole_controller ::
  "date \<Rightarrow> oid \<Rightarrow> oid \<Rightarrow> raw \<Rightarrow> role \<Rightarrow> db \<Rightarrow> response \<times> db" where
  "updateMemberRole_controller now userId roomId userIdToUpdate newRole d =
     (if \<not> isMongoId userIdToUpdate then (Response 400 ''Validation failed'' NoData, d)
      else case Room_findById d roomId of
        None \<Rightarrow> (Response 404 ''Room not found'' NoData, d)
      | Some r \<Rightarrow>
          if \<not> isAdmin r userId then (Response 403 ''Admin privileges required'' NoData, d)
          else if strictEq (creator r) userIdToUpdate
          then (Response 400 ''Cannot change creator role'' NoData, d)
          else (case updateMemberRole (toString userIdToUpdate) newRole r of
                  Inl _ \<Rightarrow> (Response 500 ''Failed to update member role'' NoData, d)
                | Inr r1 \<Rightarrow>
                    (case Room_save now False r1 d of
                       Inl _ \<Rightarrow> (Response 500 ''Failed to update member role'' NoData, d)
                     | Inr (_, d') \<Rightarrow>
                         (Response 200 ''Member role updated successfully'' NoData, d'))))"

text \<open>
  \<^verbatim>\<open>createDirectRoom\<close> of the controller. The room of the response carries the other
  user's name as its name.
\<close>

definition createDirectRoom_controller ::
  "oid \<Rightarrow> date \<Rightarrow> oid \<Rightarrow> oid \<Rightarrow> db \<Rightarrow> response \<times> db" where
  "createDirectRoom_controller newId now userId userIdToChat d =
     (if userIdToChat = userId
      then (Response 400 ''Cannot create direct message with yourself'' NoData, d)
      else case User_findById d userIdToChat of
        None \<Rightarrow> (Response 404 ''User not found'' NoData, d)
      | Some targetUser \<Rightarrow>
          if \<not> user_isActive targetUser then (Response 404 ''User not found'' NoData, d)
          else (case createDirectRoom newId now userId userIdToChat d of
                  Inl _ \<Rightarrow> (Response 500 ''Failed to create direct message'' NoData, d)
                | Inr (r, d') \<Rightarrow>
                    (Response 200 ''Direct message room created successfully''
                       (RoomData (r\<lparr>name := username targetUser\<rparr>)), d')))"

subsection \<open>Socket handlers of rooms (\<^verbatim>\<open>roomHandlers.js\<close>)\<close>





text \<open>
  \<^verbatim>\<open>socket.on('room:remove_member')\<close>; \<open>userIdToRemove\<close> is the value of the payload. The
  test for the creator is \<^verbatim>\<open>room.creator.toString() === userIdToRemove\<close>; the membership
  test and the removal go by \<^verbatim>\<open>userIdToRemove.toString()\<close>. The removed user is looked up
  after the room was saved; when the lookup throws or finds no user, the handler reports
  a failure, the room staying as saved.
\<close>

definition on_room_remove_member :: "date \<Rightarrow> oid \<Rightarrow> oid \<Rightarrow> raw \<Rightarrow> db \<Rightarrow> event list \<times> db" where
  "on_room_remove_member now userId roomId userIdToRemove d =
     (if roomId = [] \<or> \<not> truthy userIdToRemove
      then ([emitError ''Room ID and user ID are required''], d)
      else case Room_findById d roomId of
        None \<Rightarrow> ([emitError ''Room not found''], d)
      | Some r \<Rightarrow>
          if \<not> isAdmin r userId then ([emitError ''Admin privileges required''], d)
          else if strictEq (creator r) userIdToRemove
          then ([emitError ''Cannot remove room creator''], d)
          else if \<not> isMember r (toString userIdToRemove)
          then ([emitError ''User is not a member of this room''], d)
          else (case Room_save now False (removeMember (toString userIdToRemove) r) d of
                  Inl _ \<Rightarrow> ([emitError ''Failed to remove member''], d)
                | Inr (r', d') \<Rightarrow>
                    (case User_pullJoinedRoom userIdToRemove (room_id r') d' of
                       Inl _ \<Rightarrow> ([emitError ''Failed to remove member''], d')
                     | Inr d'' \<Rightarrow>
                         (case User_findById_cast d'' userIdToRemove of
                            Inr (Some _) \<Rightarrow>
                              ([Emit (ToRoom roomId) ''room:member_removed''
                                  (RemovedData roomId userIdToRemove),
                                Emit (ToUserKey userIdToRemove) ''room:removed'' (IdData roomId),
                                Emit ToSocket ''room:remove_member:success'' (IdData roomId)],
                               d'')
                          | _ \<Rightarrow> ([emitError ''Failed to remove member''], d'')))))"

text \<open>
  \<^verbatim>\<open>socket.on('room:update_role')\<close>; \<open>newRole\<close> is \<open>None\<close> when the payload has no role,
  \<open>userIdToUpdate\<close> is the value of the payload. The test for the creator is
  \<^verbatim>\<open>room.creator.toString() === userIdToUpdate\<close>; the member is found by
  \<^verbatim>\<open>userIdToUpdate.toString()\<close>.
\<close>

definition on_room_update_role ::
  "date \<Rightarrow> oid \<Rightarrow> oid \<Rightarrow> raw \<Rightarrow> role option \<Rightarrow> db \<Rightarrow> event list \<times> db" where
  "on_room_update_role now userId roomId userIdToUpdate newRole d =
     (case newRole of
        None \<Rightarrow> ([emitError ''Room ID, user ID, and role are required''], d)
      | Some ro \<Rightarrow>
          if roomId = [] \<or> \<not> truthy userIdToUpdate
          then ([emitError ''Room ID, user ID, and role are required''], d)
          else (case Room_findById d roomId of
                  None \<Rightarrow> ([emitError ''Room not found''], d)
                | Some r \<Rightarrow>
                    if \<not> isAdmin r userId then ([emitError ''Admin privileges required''], d)
                    else if strictEq (creator r) userIdToUpdate
                    then ([emitError ''Cannot change creator role''], d)
                    else (case updateMemberRole (toString userIdToUpdate) ro r of
                            Inl _ \<Rightarrow> ([emitError ''Failed to update role''], d)
                          | Inr r1 \<Rightarrow>
                              (case Room_save now False r1 d of
                                 Inl _ \<Rightarrow> ([emitError ''Failed to update role''], d)
                               | Inr (_, d') \<Rightarrow>
                                   (case User_findById_cast d' userIdToUpdate of
                                      Inr (Some _) \<Rightarrow>
                                        ([Emit (ToRoom roomId) ''room:role_updated''
                                            (RoleData roomId userIdToUpdate ro),
                                          Emit ToSocket ''room:update_role:success''
                                            (RoleData roomId userIdToUpdate ro)], d')
                                    | _ \<Rightarrow> ([emitError ''Failed to update role''], d'))))))"

text \<open>\<^verbatim>\<open>socket.on('room:create_direct')\<close>.\<close>

definition on_room_create_direct :: "oid \<Rightarrow> date \<Rightarrow> oid \<Rightarrow> oid \<Rightarrow> db \<Rightarrow> event list \<times> db" where
  "on_room_create_direct newId now userId userIdToChat d =
     (if userIdToChat = [] then ([emitError ''User ID is required''], d)
      else if userIdToChat = userId
      then ([emitError ''Cannot create direct message with yourself''], d)
      else case User_findById d userIdToChat of
        None \<Rightarrow> ([emitError ''User not found''], d)
      | Some targetUser \<Rightarrow>
          if \<not> user_isActive targetUser then ([emitError ''User not found''], d)
          else (case createDirectRoom newId now userId userIdToChat d of
                  Inl _ \<Rightarrow> ([emitError ''Failed to create direct message''], d)
                | Inr (r, d') \<Rightarrow>
                    ([Emit (ToUser userIdToChat) ''room:direct_created'' (IdData (room_id r)),
                      Emit ToSocket ''room:direct_created''
                        (RoomData (r\<lparr>name := username targetUser\<rparr>))], d')))"

subsection \<open>Status changes\<close>

text \<open>
  \<open>u\<close> is the document of the authenticated user (\<^verbatim>\<open>req.user\<close>, \<^verbatim>\<open>socket.user\<close>).

  \<^verbatim>\<open>updateStatusValidation\<close> of \<^verbatim>\<open>routes/users.js\<close> and \<^verbatim>\<open>updateStatus\<close> of the user
  controller.
\<close>

definition updateStatusValidation :: "string \<Rightarrow> bool" where
  "updateStatusValidation s = (s \<in> set [''online'', ''away'', ''busy'', ''offline''])"

definition updateStatus_controller :: "date \<Rightarrow> user_doc \<Rightarrow> string \<Rightarrow> db \<Rightarrow> response \<times> db" where
  "updateStatus_controller now u s d =
     (if \<not> updateStatusValidation s then (Response 400 ''Validation failed'' NoData, d)
      else case updateStatus now s u of
        Inl _ \<Rightarrow> (Response 500 ''Failed to update status'' NoData, d)
      | Inr u' \<Rightarrow>
          (Response 200 ''Status updated successfully'' (StatusData (status u') (lastSeen u')),
           User_save u' d))"

text \<open>\<^verbatim>\<open>socket.on('status:update')\<close> of \<^verbatim>\<open>socketHandlers.js\<close>.\<close>

definition on_status_update :: "date \<Rightarrow> user_doc \<Rightarrow> string \<Rightarrow> db \<Rightarrow> event list \<times> db" where
  "on_status_update now u s d =
     (if s \<notin> set [''online'', ''away'', ''busy''] then ([emitError ''Invalid status''], d)
      else case updateStatus now s u of
        Inl _ \<Rightarrow> ([emitError ''Failed to update status''], d)
      | Inr u' \<Rightarrow>
          ([Emit ToAll ''user:status'' (UserStatusData (user_id u') s),
            Emit ToSocket ''status:updated'' (StatusData s (lastSeen u'))],
           User_save u' d))"

subsection \<open>Sequences of requests\<close>




text \<open>
  The read watermark of a user in a room, as the controllers read it
  (\<^verbatim>\<open>room.members.find(...)\<close>, then \<^verbatim>\<open>member.lastReadAt\<close>): \<open>None\<close> when the room or the
  member does not exist.
\<close>

definition lastReadAt_of :: "db \<Rightarrow> oid \<Rightarrow> oid \<Rightarrow> date option" where
  "lastReadAt_of d roomId userId =
     (case Room_findById d roomId of
        None \<Rightarrow> None
      | Some r \<Rightarrow> map_option lastReadAt (find (\<lambda>m. user m = userId) (members r)))"

subsection \<open>How a request changes the room collection\<close>








subsection \<open>Example data\<close>

definition message0 :: message_doc where
  "message0 =
     \<lparr>message_id = ''m1'', content = ''hi'', sender = ''alice'', room = ''r1'',
      createdAt = 1000, editedAt = None, editHistory = [],
      reactions = [\<lparr>emoji = ''+1'', users = [''carol''], count = 1\<rparr>],
      readBy = [], isDeleted = False, deletedAt = None, deletedBy = None\<rparr>"

definition alice :: user_doc where
  "alice = \<lparr>user_id = ''alice'', username = ''Alice'', status = ''online'', lastSeen = 0,
            user_isActive = True, joinedRooms = [''r1'']\<rparr>"

definition bob :: user_doc where
  "bob = \<lparr>user_id = ''bob'', username = ''Bob'', status = ''online'', lastSeen = 0,
          user_isActive = True, joinedRooms = [''r1'']\<rparr>"

definition carol :: user_doc where
  "carol = \<lparr>user_id = ''carol'', username = ''Carol'', status = ''away'', lastSeen = 0,
            user_isActive = True, joinedRooms = [''r1'']\<rparr>"

definition mallory :: user_doc where
  "mallory = \<lparr>user_id = ''mallory'', username = ''Mallory'', status = ''online'', lastSeen = 0,
              user_isActive = True, joinedRooms = []\<rparr>"

definition room0 :: room_doc where
  "room0 =
     \<lparr>room_id = ''r1'', name = ''team'', description = [], room_type = Group,
      creator = ''alice'',
      members = [\<lparr>user = ''alice'', role = Admin, joinedAt = 0, lastReadAt = 0\<rparr>,
                 \<lparr>user = ''bob'', role = Member, joinedAt = 0, lastReadAt = 0\<rparr>,
                 \<lparr>user = ''carol'', role = Member, joinedAt = 0, lastReadAt = 0\<rparr>],
      settings = \<lparr>isPrivate = False, allowInvites = True, maxMembers = 3\<rparr>,
      lastMessage = Some ''m1'', lastActivity = 1000, isActive = True\<rparr>"

definition db0 :: db where
  "db0 = \<lparr>User = [alice, bob, carol, mallory], Room = [room0], Message = [message0]\<rparr>"

definition db_deleted :: db where
  "db_deleted = snd (on_message_delete 2000 ''alice'' ''m1'' db0)"

definition direct0 :: room_doc where
  "direct0 =
     \<lparr>room_id = ''r2'', name = ''Direct Message'', description = [], room_type = Direct,
      creator = ''alice'',
      members = [\<lparr>user = ''alice'', role = Admin, joinedAt = 7000, lastReadAt = 7000\<rparr>,
                 \<lparr>user = ''bob'', role = Admin, joinedAt = 7000, lastReadAt = 7000\<rparr>],
      settings = \<lparr>isPrivate = True, allowInvites = False, maxMembers = 2\<rparr>,
      lastMessage = None, lastActivity = 7000, isActive = True\<rparr>"

definition db_direct :: db where
  "db_direct = db0\<lparr>Room := [room0, direct0]\<rparr>"







definition team_room :: room_doc where
  "team_room =
     \<lparr>room_id = ''r1'', name = ''team'', description = [], room_type = Group,
      creator = ''alice'',
      members = [\<lparr>user = ''alice'', role = Admin, joinedAt = 1000, lastReadAt = 1000\<rparr>,
                 \<lparr>user = ''bob'', role = Member, joinedAt = 2000, lastReadAt = 2000\<rparr>,
                 \<lparr>user = ''carol'', role = Member, joinedAt = 3000, lastReadAt = 3000\<rparr>],
      settings = \<lparr>isPrivate = False, allowInvites = True, maxMembers = 3\<rparr>,
      lastMessage = None, lastActivity = 3000, isActive = True\<rparr>"





text \<open>The room \<open>team\<close> with a second admin, Bob.\<close>

definition club :: room_doc where
  "club =
     team_room\<lparr>members :=
       [\<lparr>user = ''alice'', role = Admin, joinedAt = 1000, lastReadAt = 1000\<rparr>,
        \<lparr>user = ''bob'', role = Admin, joinedAt = 2000, lastReadAt = 2000\<rparr>,
        \<lparr>user = ''carol'', role = Member, joinedAt = 3000, lastReadAt = 3000\<rparr>]\<rparr>"

definition db_club :: db where
  "db_club = \<lparr>User = [alice, bob, carol, mallory], Room = [club], Message = []\<rparr>"

section \<open>Properties\<close>

subsection \<open>Lists\<close>

lemma set_updateFirst: "set (updateFirst p f xs) \<subseteq> set xs \<union> f ` {x \<in> set xs. p x}"
  by (induction xs) auto

lemma length_updateFirst [simp]: "length (updateFirst p f xs) = length xs"
  by (induction xs) auto

lemma find_None_iff_all: "find p xs = None \<longleftrightarrow> (\<forall>x\<in>set xs. \<not> p x)"
  by (induction xs) auto

lemma find_Some_in: "find p xs = Some x \<Longrightarrow> x \<in> set xs \<and> p x"
  by (induction xs) (auto split: if_splits)

subsection \<open>Reactions\<close>

lemma preSave_message_counts:
  "r \<in> set (reactions (preSave_message m)) \<Longrightarrow> count r = length (users r)"
  by (auto simp: preSave_message_def)

lemma addReaction_counts:
  "r \<in> set (reactions (addReaction sameObject e u m)) \<Longrightarrow> count r = length (users r)"
  by (auto simp: addReaction_def preSave_message_def split: option.splits)

lemma removeReaction_counts:
  "r \<in> set (reactions (removeReaction e u m)) \<Longrightarrow> count r = length (users r)"
  by (auto simp: removeReaction_def preSave_message_def Let_def split: option.splits)

lemma editContent_counts:
  "editContent now c u populated m = Inr m' \<Longrightarrow> r \<in> set (reactions m') \<Longrightarrow>
   count r = length (users r)"
  by (auto simp: editContent_def preSave_message_def split: if_splits)

lemma softDelete_counts:
  "r \<in> set (reactions (softDelete now u m)) \<Longrightarrow> count r = length (users r)"
  by (auto simp: softDelete_def preSave_message_def)

lemma removeReaction_drops_entry:
  assumes "find (\<lambda>r. emoji r = e) (reactions m) = Some r0"
    and "filter (\<lambda>x. x \<noteq> u) (users r0) = []"
    and "r \<in> set (reactions (removeReaction e u m))"
  shows "emoji r \<noteq> e"
  using assms by (auto simp: removeReaction_def preSave_message_def Let_def)

lemma removeReaction_nonempty:
  assumes "\<forall>r\<in>set (reactions m). users r \<noteq> []"
    and "r \<in> set (reactions (removeReaction e u m))"
  shows "users r \<noteq> []"
proof (cases "find (\<lambda>r. emoji r = e) (reactions m)")
  case None
  with assms show ?thesis by (auto simp: removeReaction_def preSave_message_def)
next
  case (Some r0)
  let ?us = "filter (\<lambda>x. x \<noteq> u) (users r0)"
  let ?rs = "updateFirst (\<lambda>r. emoji r = e) (\<lambda>r. r\<lparr>users := ?us, count := length ?us\<rparr>) (reactions m)"
  show ?thesis
  proof (cases "?us = []")
    case True
    with Some assms(2) have "emoji r \<noteq> e"
      using removeReaction_drops_entry[of e m r0 u r] by simp
    moreover from True Some assms(2) obtain r1 where r1: "r1 \<in> set ?rs" "users r = users r1" "emoji r = emoji r1"
      by (auto simp: removeReaction_def preSave_message_def Let_def)
    ultimately show ?thesis
      using set_updateFirst[of "\<lambda>r. emoji r = e" "\<lambda>r. r\<lparr>users := ?us, count := length ?us\<rparr>" "reactions m"] assms(1)
      by auto
  next
    case False
    with Some assms(2) obtain r1 where r1: "r1 \<in> set ?rs" "users r = users r1"
      by (auto simp: removeReaction_def preSave_message_def Let_def)
    then show ?thesis
      using set_updateFirst[of "\<lambda>r. emoji r = e" "\<lambda>r. r\<lparr>users := ?us, count := length ?us\<rparr>" "reactions m"] assms(1) False
      by auto
  qed
qed

text \<open>
  Claim C10. After every save of a message (the pre-save hook alone, \<open>addReaction\<close>
  whatever the array does with the pushed object, \<open>removeReaction\<close>, \<open>softDelete\<close>, a
  successful \<open>editContent\<close>), every entry of its reactions has \<open>count\<close> equal to the
  length of its \<open>users\<close>. When \<open>removeReaction\<close> takes the last user out of the entry
  found for an emoji, no entry of that emoji remains; and when no entry had an empty user
  list before \<open>removeReaction\<close>, none has one afterwards.
\<close>

theorem reactions_count_and_no_empty_entry:
  "(\<forall>r\<in>set (reactions (preSave_message m)). count r = length (users r)) \<and>
   (\<forall>sameObject. \<forall>r\<in>set (reactions (addReaction sameObject e u m)).
      count r = length (users r)) \<and>
   (\<forall>r\<in>set (reactions (removeReaction e u m)). count r = length (users r)) \<and>
   (\<forall>r\<in>set (reactions (softDelete now u m)). count r = length (users r)) \<and>
   (\<forall>m'. editContent now c u False m = Inr m' \<longrightarrow>
      (\<forall>r\<in>set (reactions m'). count r = length (users r))) \<and>
   (\<forall>r0. find (\<lambda>r. emoji r = e) (reactions m) = Some r0 \<and>
         filter (\<lambda>x. x \<noteq> u) (users r0) = [] \<longrightarrow>
      (\<forall>r\<in>set (reactions (removeReaction e u m)). emoji r \<noteq> e)) \<and>
   ((\<forall>r\<in>set (reactions m). users r \<noteq> []) \<longrightarrow>
      (\<forall>r\<in>set (reactions (removeReaction e u m)). users r \<noteq> []))"
proof (intro conjI ballI allI impI)
  fix r assume "r \<in> set (reactions (preSave_message m))"
  then show "count r = length (users r)" by (rule preSave_message_counts)
next
  fix sameObject r assume "r \<in> set (reactions (addReaction sameObject e u m))"
  then show "count r = length (users r)" by (rule addReaction_counts)
next
  fix r assume "r \<in> set (reactions (removeReaction e u m))"
  then show "count r = length (users r)" by (rule removeReaction_counts)
next
  fix r assume "r \<in> set (reactions (softDelete now u m))"
  then show "count r = length (users r)" by (rule softDelete_counts)
next
  fix m' r assume "editContent now c u False m = Inr m'" "r \<in> set (reactions m')"
  then show "count r = length (users r)" by (rule editContent_counts)
next
  fix r0 r
  assume "find (\<lambda>r. emoji r = e) (reactions m) = Some r0 \<and>
          filter (\<lambda>x. x \<noteq> u) (users r0) = []"
    and "r \<in> set (reactions (removeReaction e u m))"
  then show "emoji r \<noteq> e" using removeReaction_drops_entry by blast
next
  fix r assume "\<forall>r\<in>set (reactions m). users r \<noteq> []"
    and "r \<in> set (reactions (removeReaction e u m))"
  then show "users r \<noteq> []" by (rule removeReaction_nonempty)
qed

theorem reactions_count_and_no_empty_entry_witness:
  "reactions (addReaction True ''ok'' ''dave'' message0)
     = [\<lparr>emoji = ''+1'', users = [''carol''], count = 1\<rparr>,
        \<lparr>emoji = ''ok'', users = [''dave''], count = 1\<rparr>] \<and>
   reactions (addReaction False ''ok'' ''dave'' message0)
     = [\<lparr>emoji = ''+1'', users = [''carol''], count = 1\<rparr>,
        \<lparr>emoji = ''ok'', users = [], count = 0\<rparr>] \<and>
   list_all (\<lambda>r. count r = length (users r))
     (reactions (addReaction True ''ok'' ''dave'' message0)) \<and>
   list_all (\<lambda>r. count r = length (users r))
     (reactions (addReaction False ''ok'' ''dave'' message0)) \<and>
   editContent 2000 ''hello'' ''alice'' False message0 =
     Inr (message0\<lparr>content := ''hello'', editedAt := Some 2000,
            editHistory := [\<lparr>history_content = ''hi'', history_editedAt = 2000\<rparr>]\<rparr>) \<and>
   find (\<lambda>r. emoji r = ''+1'') (reactions message0)
     = Some \<lparr>emoji = ''+1'', users = [''carol''], count = 1\<rparr> \<and>
   filter (\<lambda>x. x \<noteq> ''carol'') (users \<lparr>emoji = ''+1'', users = [''carol''], count = 1\<rparr>) = [] \<and>
   list_all (\<lambda>r. emoji r \<noteq> ''+1'') (reactions (removeReaction ''+1'' ''carol'' message0)) \<and>
   reactions (removeReaction ''+1'' ''carol'' message0) = [] \<and>
   list_all (\<lambda>r. users r \<noteq> []) (reactions message0) \<and>
   list_all (\<lambda>r. users r \<noteq> []) (reactions (removeReaction ''+1'' ''dave'' message0)) \<and>
   list_all (\<lambda>r. count r = length (users r))
     (reactions (message0\<lparr>content := ''hello'', editedAt := Some 2000,
        editHistory := [\<lparr>history_content = ''hi'', history_editedAt = 2000\<rparr>]\<rparr>))"
proof -
  note add = reactions_count_and_no_empty_entry [of message0 "''ok''" "''dave''" 0 "''x''"]
  note remove = reactions_count_and_no_empty_entry [of message0 "''+1''" "''carol''" 0 "''x''"]
  note keep = reactions_count_and_no_empty_entry [of message0 "''+1''" "''dave''" 0 "''x''"]
  note edit = reactions_count_and_no_empty_entry [of message0 "''+1''" "''alice''" 2000 "''hello''"]
  have ev_add: "reactions (addReaction True ''ok'' ''dave'' message0)
     = [\<lparr>emoji = ''+1'', users = [''carol''], count = 1\<rparr>,
        \<lparr>emoji = ''ok'', users = [''dave''], count = 1\<rparr>]"
    "reactions (addReaction False ''ok'' ''dave'' message0)
     = [\<lparr>emoji = ''+1'', users = [''carol''], count = 1\<rparr>,
        \<lparr>emoji = ''ok'', users = [], count = 0\<rparr>]"
    by (simp_all add: message0_def addReaction_def preSave_message_def)
  have ev_remove: "reactions (removeReaction ''+1'' ''carol'' message0) = []"
    by (simp add: message0_def removeReaction_def preSave_message_def)
  have ev_edit: "editContent 2000 ''hello'' ''alice'' False message0 =
     Inr (message0\<lparr>content := ''hello'', editedAt := Some 2000,
            editHistory := [\<lparr>history_content = ''hi'', history_editedAt = 2000\<rparr>]\<rparr>)"
    by (simp add: message0_def editContent_def validContent_def trim_def isWhiteSpace_def
        preSave_message_def)
  have found: "find (\<lambda>r. emoji r = ''+1'') (reactions message0)
     = Some \<lparr>emoji = ''+1'', users = [''carol''], count = 1\<rparr>"
    by (simp add: message0_def)
  have last_user:
    "filter (\<lambda>x. x \<noteq> ''carol'') (users \<lparr>emoji = ''+1'', users = [''carol''], count = 1\<rparr>) = []"
    by simp
  have nonempty: "\<forall>r\<in>set (reactions message0). users r \<noteq> []"
    by (simp add: message0_def)
  have counts:
    "\<forall>r\<in>set (reactions (addReaction True ''ok'' ''dave'' message0)). count r = length (users r)"
    "\<forall>r\<in>set (reactions (addReaction False ''ok'' ''dave'' message0)). count r = length (users r)"
    by (rule add [THEN conjunct2, THEN conjunct1, THEN spec])+
  have dropped: "\<forall>r\<in>set (reactions (removeReaction ''+1'' ''carol'' message0)). emoji r \<noteq> ''+1''"
    using remove [THEN conjunct2, THEN conjunct2, THEN conjunct2, THEN conjunct2, THEN conjunct2,
      THEN conjunct1, THEN spec, THEN mp, OF conjI, OF found last_user] .
  have kept: "\<forall>r\<in>set (reactions (removeReaction ''+1'' ''dave'' message0)). users r \<noteq> []"
    using keep [THEN conjunct2, THEN conjunct2, THEN conjunct2, THEN conjunct2, THEN conjunct2,
      THEN conjunct2, THEN mp, OF nonempty] .
  have edited: "\<forall>r\<in>set (reactions (message0\<lparr>content := ''hello'', editedAt := Some 2000,
        editHistory := [\<lparr>history_content = ''hi'', history_editedAt = 2000\<rparr>]\<rparr>)).
      count r = length (users r)"
    using edit [THEN conjunct2, THEN conjunct2, THEN conjunct2, THEN conjunct2,
      THEN conjunct1, THEN spec, THEN mp, OF ev_edit] .
  show ?thesis
    unfolding list_all_iff
    using ev_add counts ev_edit found last_user dropped ev_remove nonempty kept edited
    by (intro conjI)
qed

subsection \<open>Collections\<close>

lemma find_map_replace:
  "find (\<lambda>x. k x = k m') xs = Some m \<Longrightarrow>
   find (\<lambda>x. k x = k m') (map (\<lambda>x. if k x = k m' then m' else x) xs) = Some m'"
  by (induction xs) (auto split: if_splits)

lemma find_map_replace_other:
  "k m' \<noteq> i \<Longrightarrow>
   find (\<lambda>x. k x = i) (map (\<lambda>x. if k x = k m' then m' else x) xs) = find (\<lambda>x. k x = i) xs"
  by (induction xs) auto

lemma updateFirst_same:
  "find p xs = Some x \<Longrightarrow> f x = x \<Longrightarrow> updateFirst p f xs = xs"
  by (induction xs) (auto split: if_splits)

lemma Message_findById_save:
  "Message_findById d i = Some m \<Longrightarrow> message_id m' = i \<Longrightarrow>
   Message_findById (Message_save m' d) i = Some m'"
  using find_map_replace [of message_id m' "Message d" m]
  by (auto simp: Message_findById_def Message_save_def)

lemma Message_findById_id: "Message_findById d i = Some m \<Longrightarrow> message_id m = i"
  by (auto simp: Message_findById_def dest: find_Some_in)

lemma Room_findById_Message_save [simp]:
  "Room_findById (Message_save m d) i = Room_findById d i"
  by (simp add: Room_findById_def Message_save_def)

lemma Message_save_twice [simp]: "Message_save m (Message_save m d) = Message_save m d"
  by (simp add: Message_save_def comp_def cong: map_cong)

lemma message_id_preSave [simp]: "message_id (preSave_message m) = message_id m"
  by (simp add: preSave_message_def)

lemma room_preSave [simp]: "room (preSave_message m) = room m"
  by (simp add: preSave_message_def)

lemma message_id_removeReaction [simp]: "message_id (removeReaction e u m) = message_id m"
  by (simp add: removeReaction_def Let_def split: option.splits)

lemma room_removeReaction [simp]: "room (removeReaction e u m) = room m"
  by (simp add: removeReaction_def Let_def split: option.splits)

lemma message_id_addReaction [simp]: "message_id (addReaction sameObject e u m) = message_id m"
  by (simp add: addReaction_def preSave_message_def split: option.splits)

lemma room_addReaction [simp]: "room (addReaction sameObject e u m) = room m"
  by (simp add: addReaction_def preSave_message_def split: option.splits)

subsection \<open>Removing a reaction over the socket\<close>

text \<open>
  Claim C9. \<^verbatim>\<open>message:unreact\<close> checks no room membership: for every message that
  exists and every user, member of the message's room or not, the handler removes the
  reaction, saves the message and emits \<^verbatim>\<open>message:reaction:removed\<close> to the room; it
  never reads the room collection. \<^verbatim>\<open>message:react\<close> by a user who is not a member of
  the room answers with the error \<^verbatim>\<open>You are not a member of this room\<close> and changes
  nothing, whatever the array does with a pushed object.
\<close>

theorem unreact_has_no_membership_check:
  assumes "messageId \<noteq> []" and "e \<noteq> []" and "Message_findById d messageId = Some m"
  shows "on_message_unreact userId messageId e d =
           ([Emit (ToRoom (room m)) ''message:reaction:removed''
               (ReactionData messageId e userId (reactions (removeReaction e userId m)))],
            Message_save (removeReaction e userId m) d) \<and>
         (\<forall>r sameObject. Room_findById d (room m) = Some r \<and> \<not> isMember r userId \<longrightarrow>
            on_message_react sameObject userId messageId e d =
              ([emitError ''You are not a member of this room''], d))"
  using assms Message_findById_id[OF assms(3)]
  by (simp add: on_message_unreact_def on_message_react_def Let_def)

theorem unreact_has_no_membership_check_witness:
  "''m1'' \<noteq> [] \<and> ''+1'' \<noteq> [] \<and> Message_findById db0 ''m1'' = Some message0 \<and>
   Room_findById db0 (room message0) = Some room0 \<and>
   isMember room0 ''mallory'' = False \<and>
   on_message_unreact ''mallory'' ''m1'' ''+1'' db0 =
     ([Emit (ToRoom ''r1'') ''message:reaction:removed''
         (ReactionData ''m1'' ''+1'' ''mallory''
            [\<lparr>emoji = ''+1'', users = [''carol''], count = 1\<rparr>])], db0) \<and>
   on_message_react True ''mallory'' ''m1'' ''+1'' db0 =
     ([emitError ''You are not a member of this room''], db0) \<and>
   on_message_react False ''mallory'' ''m1'' ''+1'' db0 =
     ([emitError ''You are not a member of this room''], db0)"
proof -
  have found: "Message_findById db0 ''m1'' = Some message0"
    by (simp add: Message_findById_def db0_def message0_def)
  have room_found: "Room_findById db0 (room message0) = Some room0"
    by (simp add: Room_findById_def db0_def message0_def room0_def)
  have outsider: "\<not> isMember room0 ''mallory''"
    by (simp add: isMember_def room0_def)
  note T = unreact_has_no_membership_check [of "''m1''" "''+1''" db0 message0 "''mallory''", OF _ _ found]
  have removed: "removeReaction ''+1'' ''mallory'' message0 = message0"
    by (simp add: removeReaction_def message0_def preSave_message_def)
  have same: "Message_save message0 db0 = db0"
    by (simp add: Message_save_def db0_def message0_def)
  have u: "on_message_unreact ''mallory'' ''m1'' ''+1'' db0 =
     ([Emit (ToRoom ''r1'') ''message:reaction:removed''
         (ReactionData ''m1'' ''+1'' ''mallory''
            [\<lparr>emoji = ''+1'', users = [''carol''], count = 1\<rparr>])], db0)"
    using T [THEN conjunct1] by (simp add: removed same) (simp add: message0_def)
  have r: "on_message_react sameObject ''mallory'' ''m1'' ''+1'' db0 =
     ([emitError ''You are not a member of this room''], db0)" for sameObject
    using T [THEN conjunct2, THEN spec, THEN spec, THEN mp, OF _ _ conjI,
      OF _ _ room_found outsider] by simp
  show ?thesis using found room_found outsider u r by simp
qed

subsection \<open>Deleted messages\<close>

lemma softDelete_placeholder:
  "content (softDelete now deleterId m) = deletedPlaceholder \<and> isDeleted (softDelete now deleterId m)"
  by (simp add: softDelete_def preSave_message_def)

text \<open>
  The REST controllers refuse a deleted message: \<open>updateMessage\<close>,
  \<open>addReaction_controller\<close> and \<open>removeReaction_controller\<close> answer 400 or 404 and leave
  the database as it was.
\<close>

lemma rest_controllers_refuse_deleted:
  assumes "Message_findById d messageId = Some m" and "isDeleted m"
  shows "updateMessage now userId messageId c d \<in>
           {(Response 400 ''Validation failed'' NoData, d),
            (Response 404 ''Message not found'' NoData, d)}"
    and "addReaction_controller sameObject userId messageId e d \<in>
           {(Response 400 ''Validation failed'' NoData, d),
            (Response 404 ''Message not found'' NoData, d)}"
    and "removeReaction_controller userId messageId e d =
           (Response 404 ''Message not found'' NoData, d)"
  using assms
  by (simp_all add: updateMessage_def addReaction_controller_def removeReaction_controller_def)

lemma db_deleted_eval:
  "db_deleted = db0\<lparr>Message :=
     [message0\<lparr>isDeleted := True, deletedAt := Some 2000, deletedBy := Some ''alice'',
               content := deletedPlaceholder\<rparr>]\<rparr>"
  by (simp add: db_deleted_def on_message_delete_def Message_findById_def db0_def message0_def
      softDelete_def preSave_message_def Message_save_def Let_def)

text \<open>
  Claim C1, on the socket handlers. Alice deletes her message \<open>m1\<close>: it is flagged deleted
  and its content is the placeholder. The handlers of \<^verbatim>\<open>message:react\<close> and
  \<^verbatim>\<open>message:unreact\<close> do not look at the flag: Bob's react with \<open>+1\<close> on the deleted
  message adds him to the entry, whatever the array does with a pushed object, and Carol's
  unreact removes hers; both emit their event to the room. The REST controllers answer
  404 to the same two requests and leave the message as it is.
\<close>

theorem socket_handlers_change_deleted_message:
  "map isDeleted (Message db_deleted) = [True] \<and>
   map content (Message db_deleted) = [deletedPlaceholder] \<and>
   map reactions (Message db_deleted) = [[\<lparr>emoji = ''+1'', users = [''carol''], count = 1\<rparr>]] \<and>
   fst (on_message_react True ''bob'' ''m1'' ''+1'' db_deleted) =
     [Emit (ToRoom ''r1'') ''message:reaction:added''
        (ReactionData ''m1'' ''+1'' ''bob''
           [\<lparr>emoji = ''+1'', users = [''carol'', ''bob''], count = 2\<rparr>])] \<and>
   map reactions (Message (snd (on_message_react True ''bob'' ''m1'' ''+1'' db_deleted))) =
     [[\<lparr>emoji = ''+1'', users = [''carol'', ''bob''], count = 2\<rparr>]] \<and>
   on_message_react False ''bob'' ''m1'' ''+1'' db_deleted =
     on_message_react True ''bob'' ''m1'' ''+1'' db_deleted \<and>
   fst (on_message_unreact ''carol'' ''m1'' ''+1'' db_deleted) =
     [Emit (ToRoom ''r1'') ''message:reaction:removed''
        (ReactionData ''m1'' ''+1'' ''carol'' [])] \<and>
   map reactions (Message (snd (on_message_unreact ''carol'' ''m1'' ''+1'' db_deleted))) = [[]] \<and>
   addReaction_controller True ''bob'' ''m1'' ''+1'' db_deleted =
     (Response 404 ''Message not found'' NoData, db_deleted) \<and>
   addReaction_controller False ''bob'' ''m1'' ''+1'' db_deleted =
     (Response 404 ''Message not found'' NoData, db_deleted) \<and>
   removeReaction_controller ''carol'' ''m1'' ''+1'' db_deleted =
     (Response 404 ''Message not found'' NoData, db_deleted)"
proof -
  have react: "on_message_react sameObject ''bob'' ''m1'' ''+1'' db_deleted =
     ([Emit (ToRoom ''r1'') ''message:reaction:added''
        (ReactionData ''m1'' ''+1'' ''bob''
           [\<lparr>emoji = ''+1'', users = [''carol'', ''bob''], count = 2\<rparr>])],
      db0\<lparr>Message :=
        [message0\<lparr>isDeleted := True, deletedAt := Some 2000, deletedBy := Some ''alice'',
                  content := deletedPlaceholder,
                  reactions := [\<lparr>emoji = ''+1'', users = [''carol'', ''bob''], count = 2\<rparr>]\<rparr>]\<rparr>)"
    for sameObject
    by (simp add: db_deleted_eval on_message_react_def Message_findById_def Room_findById_def
        db0_def message0_def room0_def isMember_def addReaction_def
        preSave_message_def Message_save_def Let_def)
  have unreact: "on_message_unreact ''carol'' ''m1'' ''+1'' db_deleted =
     ([Emit (ToRoom ''r1'') ''message:reaction:removed''
        (ReactionData ''m1'' ''+1'' ''carol'' [])],
      db0\<lparr>Message :=
        [message0\<lparr>isDeleted := True, deletedAt := Some 2000, deletedBy := Some ''alice'',
                  content := deletedPlaceholder, reactions := []\<rparr>]\<rparr>)"
    by (simp add: db_deleted_eval on_message_unreact_def Message_findById_def
        db0_def message0_def removeReaction_def
        preSave_message_def Message_save_def Let_def)
  have rest: "addReaction_controller sameObject ''bob'' ''m1'' ''+1'' db_deleted =
       (Response 404 ''Message not found'' NoData, db_deleted)"
    "removeReaction_controller ''carol'' ''m1'' ''+1'' db_deleted =
       (Response 404 ''Message not found'' NoData, db_deleted)" for sameObject
    by (simp_all add: db_deleted_eval addReaction_controller_def removeReaction_controller_def
        reactionValidation_def Message_findById_def db0_def message0_def)
  show ?thesis
    by (simp add: react unreact rest) (simp add: db_deleted_eval message0_def)
qed

subsection \<open>The edit window\<close>

lemma dropWhile_rev_trimmed:
  "dropWhile p (rev (dropWhile p (rev (dropWhile p s)))) = rev (dropWhile p (rev (dropWhile p s)))"
proof -
  define a where "a = dropWhile p s"
  define b where "b = dropWhile p (rev a)"
  have "dropWhile p (rev b) = rev b"
  proof (cases "b = []")
    case True
    then show ?thesis by simp
  next
    case False
    from False have ne: "rev a \<noteq> []" by (auto simp: b_def)
    have "\<exists>ys. rev a = ys @ b" unfolding b_def
      by (metis takeWhile_dropWhile_id)
    then obtain ys where ys: "rev a = ys @ b" ..
    with False have "last b = last (rev a)" by simp
    also have "\<dots> = hd a" using ne by (simp add: last_rev)
    finally have lb: "last b = hd a" .
    from ne have "a \<noteq> []" by simp
    then have "\<not> p (hd a)" unfolding a_def by (rule hd_dropWhile)
    with lb have "\<not> p (last b)" by simp
    with False have "\<not> p (hd (rev b))" by (simp add: hd_rev)
    with False show ?thesis by (cases "rev b") auto
  qed
  then show ?thesis by (simp add: a_def b_def)
qed

lemma trim_idem [simp]: "trim (trim s) = trim s"
proof -
  let ?t = "rev (dropWhile isWhiteSpace (rev (dropWhile isWhiteSpace s)))"
  have "dropWhile isWhiteSpace ?t = ?t" by (rule dropWhile_rev_trimmed)
  then show ?thesis by (simp add: trim_def)
qed

lemma trim_Nil [simp]: "trim [] = []"
  by (simp add: trim_def)

text \<open>
  The REST controller has the edit window. The message exists and is not deleted, the
  editor is its sender and the new content, trimmed, has 1 to 2000 characters. A request
  later than 15 minutes after the creation is refused as too old and the database is
  unchanged; a request within the 15 minutes stores the message with the prior content
  appended to the edit history and the new, trimmed content in its place.
\<close>

lemma updateMessage_edit_window:
  fixes m :: message_doc and now :: date and c :: string
  defines "m' \<equiv> preSave_message
     (m\<lparr>editHistory := editHistory m @ [\<lparr>history_content = content m, history_editedAt = now\<rparr>],
        content := trim c, editedAt := Some now\<rparr>)"
  assumes "Message_findById d messageId = Some m" and "\<not> isDeleted m"
    and "sender m = userId" and "validContent (trim c)"
  shows "createdAt m + 15 * 60 * 1000 < now \<Longrightarrow>
           updateMessage now userId messageId c d =
             (Response 400 ''Message is too old to edit'' NoData, d)"
    and "now \<le> createdAt m + 15 * 60 * 1000 \<Longrightarrow>
           updateMessage now userId messageId c d =
             (Response 200 ''Message updated successfully'' (MessageData m'), Message_save m' d)"
    and "Message_findById (Message_save m' d) messageId = Some m'"
    and "content m' = trim c"
    and "editHistory m' =
           editHistory m @ [\<lparr>history_content = content m, history_editedAt = now\<rparr>]"
proof -
  have c_ne: "trim c \<noteq> []" "length (trim c) \<le> 2000"
    using assms(5) by (auto simp: validContent_def)
  have valid: "updateMessageValidation c"
    using c_ne by (cases "trim c") (auto simp: updateMessageValidation_def)
  have ec: "editContent now (trim c) userId False m = Inr m'"
    using assms by (simp add: editContent_def)
  have id: "message_id m' = messageId"
    using Message_findById_id[OF assms(2)] by (simp add: m'_def)
  show "content m' = trim c"
    and "editHistory m' = editHistory m @ [\<lparr>history_content = content m, history_editedAt = now\<rparr>]"
    by (simp_all add: m'_def preSave_message_def)
  show "Message_findById (Message_save m' d) messageId = Some m'"
    using assms(2) id by (rule Message_findById_save)
  show "updateMessage now userId messageId c d =
      (Response 400 ''Message is too old to edit'' NoData, d)"
    if "createdAt m + 15 * 60 * 1000 < now"
    using assms(2-) valid that by (simp add: updateMessage_def editWindow_def)
  show "updateMessage now userId messageId c d =
      (Response 200 ''Message updated successfully'' (MessageData m'), Message_save m' d)"
    if "now \<le> createdAt m + 15 * 60 * 1000"
    using assms(2-) valid that ec by (simp add: updateMessage_def editWindow_def)
qed

text \<open>
  The socket handler has the first half of it: an edit by the sender later than 15
  minutes after the creation is refused as too old.
\<close>

lemma on_message_edit_too_old:
  assumes "Message_findById d messageId = Some m" and "messageId \<noteq> []"
    and "User_findById d (sender m) = Some s" and "sender m = userId"
    and "trim c \<noteq> []" and "createdAt m + 15 * 60 * 1000 < now"
  shows "on_message_edit now userId messageId c d =
           ([emitError ''Message is too old to edit''], d)"
proof -
  have "user_id s = sender m"
    using assms(3) by (auto simp: User_findById_def dest: find_Some_in)
  moreover have "c \<noteq> []" using assms(5) by auto
  ultimately show ?thesis
    using assms by (simp add: on_message_edit_def editWindow_def)
qed

text \<open>
  It has not the second half. \<^verbatim>\<open>editContent\<close> is called on the message loaded with its
  sender populated, where its own test of the sender fails for every editor: whatever the
  request, the handler answers with one error event and leaves the database as it was.
\<close>

lemma editContent_populated:
  "editContent now c editorId True m = Inl OnlySenderCanEdit"
  by (simp add: editContent_def)

lemma on_message_edit_changes_nothing:
  "\<exists>msg. on_message_edit now userId messageId c d = ([emitError msg], d)"
  by (auto simp: on_message_edit_def editContent_populated split: option.splits)

text \<open>
  Claim C3. Alice sent \<open>m1\<close> at time 1000. Her edit at 901001, later than 15 minutes
  after, is refused as too old by the socket handler and by the REST controller, and
  nothing changes. Her edit at 2000, within the 15 minutes, is carried out by the REST
  controller, which stores the trimmed content and appends the prior content to the
  history; the socket handler answers \<^verbatim>\<open>Failed to edit message\<close> to the same request and
  stores nothing.
\<close>

theorem socket_edit_within_window_fails:
  "Message_findById db0 ''m1'' = Some message0 \<and>
   sender message0 = ''alice'' \<and> createdAt message0 = 1000 \<and>
   content message0 = ''hi'' \<and> isDeleted message0 = False \<and>
   User_findById db0 ''alice'' = Some alice \<and>
   on_message_edit 901001 ''alice'' ''m1'' ''  hello '' db0 =
     ([emitError ''Message is too old to edit''], db0) \<and>
   updateMessage 901001 ''alice'' ''m1'' ''  hello '' db0 =
     (Response 400 ''Message is too old to edit'' NoData, db0) \<and>
   updateMessage 2000 ''alice'' ''m1'' ''  hello '' db0 =
     (Response 200 ''Message updated successfully''
        (MessageData (message0\<lparr>content := ''hello'', editedAt := Some 2000,
           editHistory := [\<lparr>history_content = ''hi'', history_editedAt = 2000\<rparr>]\<rparr>)),
      db0\<lparr>Message := [message0\<lparr>content := ''hello'', editedAt := Some 2000,
           editHistory := [\<lparr>history_content = ''hi'', history_editedAt = 2000\<rparr>]\<rparr>]\<rparr>) \<and>
   on_message_edit 2000 ''alice'' ''m1'' ''  hello '' db0 =
     ([emitError ''Failed to edit message''], db0)"
proof -
  have found: "Message_findById db0 ''m1'' = Some message0"
    by (simp add: Message_findById_def db0_def message0_def)
  have user: "User_findById db0 ''alice'' = Some alice"
    by (simp add: User_findById_def db0_def alice_def)
  have fields: "sender message0 = ''alice''" "createdAt message0 = 1000"
    "content message0 = ''hi''" "\<not> isDeleted message0" "editHistory message0 = []"
    by (simp_all add: message0_def)
  have tr: "trim ''  hello '' = ''hello''"
    by (simp add: trim_def isWhiteSpace_def)
  have valid: "validContent (trim ''  hello '')"
    by (simp add: tr validContent_def)
  have late_socket: "on_message_edit 901001 ''alice'' ''m1'' ''  hello '' db0 =
       ([emitError ''Message is too old to edit''], db0)"
    using user by (intro on_message_edit_too_old [OF found]) (simp_all add: fields tr)
  have late_rest: "updateMessage 901001 ''alice'' ''m1'' ''  hello '' db0 =
       (Response 400 ''Message is too old to edit'' NoData, db0)"
    by (rule updateMessage_edit_window(1) [OF found fields(4) fields(1) valid])
      (simp add: fields)
  have "updateMessage 2000 ''alice'' ''m1'' ''  hello '' db0 =
     (Response 200 ''Message updated successfully''
        (MessageData (preSave_message
           (message0\<lparr>editHistory := editHistory message0 @
                [\<lparr>history_content = content message0, history_editedAt = 2000\<rparr>],
              content := trim ''  hello '', editedAt := Some 2000\<rparr>))),
      Message_save (preSave_message
           (message0\<lparr>editHistory := editHistory message0 @
                [\<lparr>history_content = content message0, history_editedAt = 2000\<rparr>],
              content := trim ''  hello '', editedAt := Some 2000\<rparr>)) db0)"
    by (rule updateMessage_edit_window(2) [OF found fields(4) fields(1) valid])
      (simp add: fields)
  then have intime_rest: "updateMessage 2000 ''alice'' ''m1'' ''  hello '' db0 =
     (Response 200 ''Message updated successfully''
        (MessageData (message0\<lparr>content := ''hello'', editedAt := Some 2000,
           editHistory := [\<lparr>history_content = ''hi'', history_editedAt = 2000\<rparr>]\<rparr>)),
      db0\<lparr>Message := [message0\<lparr>content := ''hello'', editedAt := Some 2000,
           editHistory := [\<lparr>history_content = ''hi'', history_editedAt = 2000\<rparr>]\<rparr>]\<rparr>)"
    by (simp add: tr) (simp add: preSave_message_def message0_def Message_save_def db0_def)
  have intime_socket: "on_message_edit 2000 ''alice'' ''m1'' ''  hello '' db0 =
     ([emitError ''Failed to edit message''], db0)"
    using found user
    by (simp add: on_message_edit_def fields tr editWindow_def editContent_populated alice_def)
  show ?thesis
    using found user fields late_socket late_rest intime_rest intime_socket by simp
qed

subsection \<open>Reacting twice\<close>

lemma find_updateFirst:
  "find p xs = Some x \<Longrightarrow> p (f x) \<Longrightarrow> find p (updateFirst p f xs) = Some (f x)"
  by (induction xs) (auto split: if_splits)

lemma find_map_same_key:
  "(\<And>x. p (g x) = p x) \<Longrightarrow> find p (map g xs) = map_option g (find p xs)"
  by (induction xs) auto

lemma find_append_new:
  "find p xs = None \<Longrightarrow> p y \<Longrightarrow> find p (xs @ [y]) = Some y"
  by (induction xs) (auto split: if_splits)

lemma preSave_message_idem [simp]:
  "preSave_message (preSave_message m) = preSave_message m"
  by (simp add: preSave_message_def comp_def)

lemma preSave_message_reaction_sets:
  "map (\<lambda>x. (emoji x, users x)) (reactions (preSave_message m)) =
   map (\<lambda>x. (emoji x, users x)) (reactions m)"
  by (simp add: preSave_message_def comp_def)

lemma addReaction_present:
  assumes "find (\<lambda>x. emoji x = e) (reactions m) = Some x" and "userId \<in> set (users x)"
  shows "addReaction sameObject e userId m = preSave_message m"
proof -
  let ?f = "\<lambda>r. if userId \<in> set (users r) then r
                 else r\<lparr>users := users r @ [userId], count := length (users r @ [userId])\<rparr>"
  have "?f x = x" using assms(2) by simp
  with assms(1) have "updateFirst (\<lambda>x. emoji x = e) ?f (reactions m) = reactions m"
    by (rule updateFirst_same)
  then show ?thesis using assms(1) by (simp add: addReaction_def)
qed

text \<open>
  After \<open>addReaction\<close> the user is in the entry of the emoji, when the message had an
  entry for the emoji or the array kept the pushed object itself.
\<close>

lemma addReaction_then_present:
  assumes "sameObject \<or> find (\<lambda>x. emoji x = e) (reactions m) \<noteq> None"
  shows "\<exists>x. find (\<lambda>x. emoji x = e) (reactions (addReaction sameObject e userId m)) = Some x \<and>
             userId \<in> set (users x)"
proof (cases "find (\<lambda>x. emoji x = e) (reactions m)")
  case None
  let ?new = "\<lparr>emoji = e, users = [userId], count = length [userId]\<rparr>"
  let ?g = "\<lambda>r. r\<lparr>count := length (users r)\<rparr>"
  from None assms have sameObject by simp
  with None have "reactions (addReaction sameObject e userId m) = map ?g (reactions m @ [?new])"
    by (simp add: addReaction_def preSave_message_def)
  moreover have "find (\<lambda>x. emoji x = e) (map ?g (reactions m @ [?new])) =
      map_option ?g (find (\<lambda>x. emoji x = e) (reactions m @ [?new]))"
    by (rule find_map_same_key) simp
  moreover have "find (\<lambda>x. emoji x = e) (reactions m @ [?new]) = Some ?new"
    using None by (rule find_append_new) simp
  ultimately have "find (\<lambda>x. emoji x = e) (reactions (addReaction sameObject e userId m)) =
      Some (?g ?new)"
    by simp
  moreover have "userId \<in> set (users (?g ?new))" by simp
  ultimately show ?thesis by (intro exI conjI)
next
  case (Some y)
  let ?p = "\<lambda>x. emoji x = e"
  let ?f = "\<lambda>r. if userId \<in> set (users r) then r
                 else r\<lparr>users := users r @ [userId], count := length (users r @ [userId])\<rparr>"
  let ?g = "\<lambda>r. r\<lparr>count := length (users r)\<rparr>"
  from Some have "?p y" by (auto dest: find_Some_in)
  then have "?p (?f y)" by simp
  with Some have "find ?p (updateFirst ?p ?f (reactions m)) = Some (?f y)"
    by (rule find_updateFirst)
  moreover have "find ?p (map ?g (updateFirst ?p ?f (reactions m))) =
      map_option ?g (find ?p (updateFirst ?p ?f (reactions m)))"
    by (rule find_map_same_key) simp
  ultimately have found: "find ?p (map ?g (updateFirst ?p ?f (reactions m))) = Some (?g (?f y))"
    by simp
  have member: "userId \<in> set (users (?g (?f y)))" by simp
  have "reactions (addReaction sameObject e userId m) = map ?g (updateFirst ?p ?f (reactions m))"
    using Some by (simp add: addReaction_def preSave_message_def)
  with found have "find ?p (reactions (addReaction sameObject e userId m)) = Some (?g (?f y))"
    by simp
  with member show ?thesis by (intro exI conjI)
qed

lemma addReaction_saved:
  "preSave_message (addReaction sameObject e userId m) = addReaction sameObject e userId m"
  by (simp add: addReaction_def split: option.splits)

lemma addReaction_idem:
  assumes "sameObject \<or> find (\<lambda>x. emoji x = e) (reactions m) \<noteq> None"
  shows "addReaction sameObject e userId (addReaction sameObject e userId m) =
         addReaction sameObject e userId m"
proof -
  obtain x where "find (\<lambda>x. emoji x = e) (reactions (addReaction sameObject e userId m)) = Some x"
    and "userId \<in> set (users x)"
    using addReaction_then_present [OF assms] by blast
  then have "addReaction sameObject e userId (addReaction sameObject e userId m) =
      preSave_message (addReaction sameObject e userId m)"
    by (rule addReaction_present)
  then show ?thesis by (simp add: addReaction_saved)
qed

lemma on_message_react_accepted:
  assumes "messageId \<noteq> []" and "e \<noteq> []" and "Message_findById d messageId = Some m"
    and "Room_findById d (room m) = Some r" and "isMember r userId"
  shows "on_message_react sameObject userId messageId e d =
           ([Emit (ToRoom (room m)) ''message:reaction:added''
               (ReactionData messageId e userId
                  (reactions (addReaction sameObject e userId m)))],
            Message_save (addReaction sameObject e userId m) d)"
  using assms Message_findById_id [OF assms(3)]
  by (simp add: on_message_react_def Let_def)

lemma on_message_react_twice:
  assumes "messageId \<noteq> []" and "e \<noteq> []" and "Message_findById d messageId = Some m"
    and "Room_findById d (room m) = Some r" and "isMember r userId"
    and "sameObject \<or> find (\<lambda>x. emoji x = e) (reactions m) \<noteq> None"
  shows "on_message_react sameObject userId messageId e
           (snd (on_message_react sameObject userId messageId e d)) =
         on_message_react sameObject userId messageId e d"
proof -
  let ?m1 = "addReaction sameObject e userId m"
  have id: "message_id ?m1 = messageId"
    using Message_findById_id [OF assms(3)] by simp
  have first: "on_message_react sameObject userId messageId e d =
      ([Emit (ToRoom (room m)) ''message:reaction:added''
          (ReactionData messageId e userId (reactions ?m1))], Message_save ?m1 d)"
    using assms(1-5) by (rule on_message_react_accepted)
  have found: "Message_findById (Message_save ?m1 d) messageId = Some ?m1"
    using assms(3) id by (rule Message_findById_save)
  have room_found: "Room_findById (Message_save ?m1 d) (room ?m1) = Some r"
    using assms(4) by simp
  have "on_message_react sameObject userId messageId e (Message_save ?m1 d) =
      ([Emit (ToRoom (room ?m1)) ''message:reaction:added''
          (ReactionData messageId e userId (reactions (addReaction sameObject e userId ?m1)))],
       Message_save (addReaction sameObject e userId ?m1) (Message_save ?m1 d))"
    using assms(1,2) found room_found assms(5) by (rule on_message_react_accepted)
  then have "on_message_react sameObject userId messageId e (Message_save ?m1 d) =
      ([Emit (ToRoom (room m)) ''message:reaction:added''
          (ReactionData messageId e userId (reactions ?m1))], Message_save ?m1 d)"
    by (simp add: addReaction_idem [OF assms(6)])
  with first show ?thesis by simp
qed

text \<open>
  Claim C4. The first half holds: a react by a user who is already in the user list of
  the emoji's entry saves the message with the same reaction sets. The second half does
  not: the handler emits \<^verbatim>\<open>message:reaction:added\<close> after every react it accepts. Carol,
  who has reacted with \<open>+1\<close>, reacts with \<open>+1\<close> again: the database is the same and the
  event goes to the room.
\<close>

theorem react_again_emits_without_change:
  "on_message_react True ''carol'' ''m1'' ''+1'' db0 =
     ([Emit (ToRoom ''r1'') ''message:reaction:added''
         (ReactionData ''m1'' ''+1'' ''carol''
            [\<lparr>emoji = ''+1'', users = [''carol''], count = 1\<rparr>])], db0) \<and>
   on_message_react False ''carol'' ''m1'' ''+1'' db0 =
     ([Emit (ToRoom ''r1'') ''message:reaction:added''
         (ReactionData ''m1'' ''+1'' ''carol''
            [\<lparr>emoji = ''+1'', users = [''carol''], count = 1\<rparr>])], db0)"
  by (simp add: on_message_react_def Message_findById_def Room_findById_def db0_def
      message0_def room0_def isMember_def addReaction_def preSave_message_def
      Message_save_def Let_def)

text \<open>
  Claim C4, amended. The message exists, the user is a member of its room and the message
  has an entry for the emoji. A react by a user already in the user list of the entry
  leaves the reaction sets of the message unchanged, and the handler emits
  \<^verbatim>\<open>message:reaction:added\<close> to the room all the same. Whether the user was in the list or
  not, the react repeated answers as the first did and leaves the database of the first:
  the same event once more, no further change.
\<close>

theorem react_is_idempotent_and_always_emits:
  assumes "messageId \<noteq> []" and "e \<noteq> []" and "Message_findById d messageId = Some m"
    and "Room_findById d (room m) = Some r" and "isMember r userId"
    and "find (\<lambda>x. emoji x = e) (reactions m) = Some x"
  shows "(userId \<in> set (users x) \<longrightarrow>
            on_message_react sameObject userId messageId e d =
              ([Emit (ToRoom (room m)) ''message:reaction:added''
                  (ReactionData messageId e userId (reactions (preSave_message m)))],
               Message_save (preSave_message m) d) \<and>
            map (\<lambda>x. (emoji x, users x)) (reactions (preSave_message m)) =
              map (\<lambda>x. (emoji x, users x)) (reactions m)) \<and>
         on_message_react sameObject userId messageId e d =
           ([Emit (ToRoom (room m)) ''message:reaction:added''
               (ReactionData messageId e userId
                  (reactions (addReaction sameObject e userId m)))],
            Message_save (addReaction sameObject e userId m) d) \<and>
         on_message_react sameObject userId messageId e
           (snd (on_message_react sameObject userId messageId e d)) =
         on_message_react sameObject userId messageId e d"
proof (intro conjI impI)
  show accepted: "on_message_react sameObject userId messageId e d =
      ([Emit (ToRoom (room m)) ''message:reaction:added''
          (ReactionData messageId e userId (reactions (addReaction sameObject e userId m)))],
       Message_save (addReaction sameObject e userId m) d)"
    using assms(1-5) by (rule on_message_react_accepted)
  show "on_message_react sameObject userId messageId e
           (snd (on_message_react sameObject userId messageId e d)) =
         on_message_react sameObject userId messageId e d"
    using assms(1-5) by (rule on_message_react_twice) (simp add: assms(6))
  show "map (\<lambda>x. (emoji x, users x)) (reactions (preSave_message m)) =
        map (\<lambda>x. (emoji x, users x)) (reactions m)"
    by (rule preSave_message_reaction_sets)
  assume "userId \<in> set (users x)"
  with assms(6) have "addReaction sameObject e userId m = preSave_message m"
    by (rule addReaction_present)
  with accepted show "on_message_react sameObject userId messageId e d =
        ([Emit (ToRoom (room m)) ''message:reaction:added''
            (ReactionData messageId e userId (reactions (preSave_message m)))],
         Message_save (preSave_message m) d)"
    by simp
qed

theorem react_is_idempotent_and_always_emits_witness:
  "''m1'' \<noteq> [] \<and> ''+1'' \<noteq> [] \<and> Message_findById db0 ''m1'' = Some message0 \<and>
   Room_findById db0 (room message0) = Some room0 \<and>
   isMember room0 ''carol'' \<and> isMember room0 ''bob'' \<and>
   find (\<lambda>x. emoji x = ''+1'') (reactions message0) =
     Some \<lparr>emoji = ''+1'', users = [''carol''], count = 1\<rparr> \<and>
   ''carol'' \<in> set (users \<lparr>emoji = ''+1'', users = [''carol''], count = 1\<rparr>) \<and>
   on_message_react False ''carol'' ''m1'' ''+1'' db0 =
     ([Emit (ToRoom ''r1'') ''message:reaction:added''
         (ReactionData ''m1'' ''+1'' ''carol''
            [\<lparr>emoji = ''+1'', users = [''carol''], count = 1\<rparr>])], db0) \<and>
   on_message_react False ''bob'' ''m1'' ''+1'' db0 =
     ([Emit (ToRoom ''r1'') ''message:reaction:added''
         (ReactionData ''m1'' ''+1'' ''bob''
            [\<lparr>emoji = ''+1'', users = [''carol'', ''bob''], count = 2\<rparr>])],
      db0\<lparr>Message := [message0\<lparr>reactions :=
            [\<lparr>emoji = ''+1'', users = [''carol'', ''bob''], count = 2\<rparr>]\<rparr>]\<rparr>) \<and>
   on_message_react False ''bob'' ''m1'' ''+1''
       (snd (on_message_react False ''bob'' ''m1'' ''+1'' db0)) =
     ([Emit (ToRoom ''r1'') ''message:reaction:added''
         (ReactionData ''m1'' ''+1'' ''bob''
            [\<lparr>emoji = ''+1'', users = [''carol'', ''bob''], count = 2\<rparr>])],
      db0\<lparr>Message := [message0\<lparr>reactions :=
            [\<lparr>emoji = ''+1'', users = [''carol'', ''bob''], count = 2\<rparr>]\<rparr>]\<rparr>)"
proof -
  have found: "Message_findById db0 ''m1'' = Some message0"
    by (simp add: Message_findById_def db0_def message0_def)
  have room_found: "Room_findById db0 (room message0) = Some room0"
    by (simp add: Room_findById_def db0_def message0_def room0_def)
  have members: "isMember room0 ''carol''" "isMember room0 ''bob''"
    by (simp_all add: isMember_def room0_def)
  have entry: "find (\<lambda>x. emoji x = ''+1'') (reactions message0) =
     Some \<lparr>emoji = ''+1'', users = [''carol''], count = 1\<rparr>"
    by (simp add: message0_def)
  note carol_again = react_is_idempotent_and_always_emits
    [of "''m1''" "''+1''" db0 message0 room0 "''carol''" _ False,
     OF _ _ found room_found members(1) entry, THEN conjunct1, THEN mp, THEN conjunct1]
  note bob_twice = react_is_idempotent_and_always_emits
    [of "''m1''" "''+1''" db0 message0 room0 "''bob''" _ False,
     OF _ _ found room_found members(2) entry, THEN conjunct2]
  have same: "Message_save (preSave_message message0) db0 = db0"
    by (simp add: Message_save_def db0_def message0_def preSave_message_def)
  have carol: "on_message_react False ''carol'' ''m1'' ''+1'' db0 =
     ([Emit (ToRoom ''r1'') ''message:reaction:added''
         (ReactionData ''m1'' ''+1'' ''carol''
            [\<lparr>emoji = ''+1'', users = [''carol''], count = 1\<rparr>])], db0)"
    using carol_again by (simp add: same) (simp add: message0_def preSave_message_def)
  have added: "addReaction False ''+1'' ''bob'' message0 =
      message0\<lparr>reactions := [\<lparr>emoji = ''+1'', users = [''carol'', ''bob''], count = 2\<rparr>]\<rparr>"
    by (simp add: addReaction_def message0_def preSave_message_def)
  have saved: "Message_save
      (message0\<lparr>reactions := [\<lparr>emoji = ''+1'', users = [''carol'', ''bob''], count = 2\<rparr>]\<rparr>) db0 =
      db0\<lparr>Message := [message0\<lparr>reactions :=
            [\<lparr>emoji = ''+1'', users = [''carol'', ''bob''], count = 2\<rparr>]\<rparr>]\<rparr>"
    by (simp add: Message_save_def db0_def message0_def)
  have bob_first: "on_message_react False ''bob'' ''m1'' ''+1'' db0 =
     ([Emit (ToRoom ''r1'') ''message:reaction:added''
         (ReactionData ''m1'' ''+1'' ''bob''
            [\<lparr>emoji = ''+1'', users = [''carol'', ''bob''], count = 2\<rparr>])],
      db0\<lparr>Message := [message0\<lparr>reactions :=
            [\<lparr>emoji = ''+1'', users = [''carol'', ''bob''], count = 2\<rparr>]\<rparr>]\<rparr>)"
    using bob_twice [THEN conjunct1] by (simp add: added saved) (simp add: message0_def)
  have bob_second: "on_message_react False ''bob'' ''m1'' ''+1''
       (snd (on_message_react False ''bob'' ''m1'' ''+1'' db0)) =
     ([Emit (ToRoom ''r1'') ''message:reaction:added''
         (ReactionData ''m1'' ''+1'' ''bob''
            [\<lparr>emoji = ''+1'', users = [''carol'', ''bob''], count = 2\<rparr>])],
      db0\<lparr>Message := [message0\<lparr>reactions :=
            [\<lparr>emoji = ''+1'', users = [''carol'', ''bob''], count = 2\<rparr>]\<rparr>]\<rparr>)"
    using bob_twice [THEN conjunct2] bob_first by simp
  show ?thesis
    using found room_found members entry carol bob_first bob_second by simp
qed

subsection \<open>The read watermark\<close>

lemma Room_findById_id: "Room_findById d i = Some r \<Longrightarrow> room_id r = i"
  by (auto simp: Room_findById_def dest: find_Some_in)


lemma Room_save_unchecked:
  "Room_save now False r d =
     Inr (preSave_room now r,
          d\<lparr>Room := map (\<lambda>x. if room_id x = room_id r then preSave_room now r else x) (Room d)\<rparr>)"
  by (simp add: Room_save_def preSave_room_def Let_def)

lemma Room_findById_replace:
  assumes "Room_findById d i = Some r" and "room_id r' = i"
  shows "Room_findById (d\<lparr>Room := map (\<lambda>x. if room_id x = room_id r' then r' else x) (Room d)\<rparr>) i
         = Some r'"
  using assms find_map_replace [of room_id r' "Room d" r]
  by (auto simp: Room_findById_def)

lemma Room_findById_Message_markRead [simp]:
  "Room_findById (Message_markRead now userId roomId ids d) i = Room_findById d i"
  by (simp add: Room_findById_def Message_markRead_def)

lemma isMember_find: "isMember r userId \<longleftrightarrow> find (\<lambda>m. user m = userId) (members r) \<noteq> None"
  by (auto simp: isMember_def list_ex_iff find_None_iff_all)

lemma updateLastRead_member:
  assumes "isMember r userId"
  shows "\<exists>r'. updateLastRead now userId r = Some r' \<and> room_id r' = room_id r \<and>
              isMember r' userId \<and>
              map_option lastReadAt (find (\<lambda>m. user m = userId) (members r')) = Some now"
proof -
  from assms obtain m where m: "find (\<lambda>m. user m = userId) (members r) = Some m"
    by (auto simp: isMember_find)
  then have um: "user m = userId" by (auto dest: find_Some_in)
  let ?r' = "r\<lparr>members := updateFirst (\<lambda>m. user m = userId) (\<lambda>m. m\<lparr>lastReadAt := now\<rparr>) (members r)\<rparr>"
  have f: "find (\<lambda>m. user m = userId) (members ?r') = Some (m\<lparr>lastReadAt := now\<rparr>)"
    using find_updateFirst [OF m, of "\<lambda>m. m\<lparr>lastReadAt := now\<rparr>"] um by simp
  have "updateLastRead now userId r = Some ?r'"
    using m by (simp add: updateLastRead_def)
  moreover have "isMember ?r' userId" using f by (simp add: isMember_find)
  ultimately show ?thesis using f by simp
qed

lemma mark_read_sets_watermark:
  assumes "Room_findById d roomId = Some r" and "isMember r userId"
    and "Room_save now False r' d = Inr (r'', d')"
    and "updateLastRead now userId r = Some r'"
  shows "\<exists>r1. Room_findById d' roomId = Some r1 \<and> isMember r1 userId \<and>
              lastReadAt_of d' roomId userId = Some now"
proof -
  from updateLastRead_member [OF assms(2), of now] assms(4)
  have r': "room_id r' = room_id r" "isMember r' userId"
    "map_option lastReadAt (find (\<lambda>m. user m = userId) (members r')) = Some now"
    by auto
  have id: "room_id (preSave_room now r') = roomId"
    using r'(1) Room_findById_id [OF assms(1)] by (simp add: preSave_room_def)
  from assms(3) have d': "r'' = preSave_room now r'"
    "d' = d\<lparr>Room := map (\<lambda>x. if room_id x = room_id r' then preSave_room now r' else x) (Room d)\<rparr>"
    by (simp_all add: Room_save_unchecked)
  have "room_id (preSave_room now r') = room_id r'" by (simp add: preSave_room_def)
  with d'(2) have "d' = d\<lparr>Room := map (\<lambda>x. if room_id x = room_id (preSave_room now r')
                                          then preSave_room now r' else x) (Room d)\<rparr>"
    by simp
  with Room_findById_replace [OF assms(1) id]
  have found: "Room_findById d' roomId = Some (preSave_room now r')" by simp
  moreover have "isMember (preSave_room now r') userId"
    using r'(2) by (simp add: isMember_def preSave_room_def)
  moreover have "lastReadAt_of d' roomId userId = Some now"
    using found r'(3) by (simp add: lastReadAt_of_def preSave_room_def)
  ultimately show ?thesis by blast
qed

lemma on_messages_mark_read_effect:
  assumes "roomId \<noteq> []" and "Room_findById d roomId = Some r" and "isMember r userId"
  shows "\<exists>r1. Room_findById (snd (on_messages_mark_read now userId roomId ids d)) roomId = Some r1 \<and>
              isMember r1 userId \<and>
              lastReadAt_of (snd (on_messages_mark_read now userId roomId ids d)) roomId userId
                = Some now"
proof -
  from updateLastRead_member [OF assms(3), of now]
  obtain r' where r': "updateLastRead now userId r = Some r'" by blast
  obtain r'' d' where s: "Room_save now False r' d = Inr (r'', d')"
    by (simp add: Room_save_unchecked)
  from mark_read_sets_watermark [OF assms(2,3) s r']
  obtain r1 where "Room_findById d' roomId = Some r1" "isMember r1 userId"
    "lastReadAt_of d' roomId userId = Some now" by blast
  then show ?thesis
    using assms r' s by (simp add: on_messages_mark_read_def lastReadAt_of_def)
qed

lemma markAsRead_effect:
  assumes "Room_findById d roomId = Some r" and "isMember r userId"
  shows "\<exists>r1. Room_findById (snd (markAsRead now userId roomId ids d)) roomId = Some r1 \<and>
              isMember r1 userId \<and>
              lastReadAt_of (snd (markAsRead now userId roomId ids d)) roomId userId = Some now"
proof -
  from updateLastRead_member [OF assms(2), of now]
  obtain r' where r': "updateLastRead now userId r = Some r'" by blast
  obtain r'' d' where s: "Room_save now False r' d = Inr (r'', d')"
    by (simp add: Room_save_unchecked)
  from mark_read_sets_watermark [OF assms(1,2) s r']
  obtain r1 where "Room_findById d' roomId = Some r1" "isMember r1 userId"
    "lastReadAt_of d' roomId userId = Some now" by blast
  then show ?thesis
    using assms r' s by (simp add: markAsRead_def lastReadAt_of_def)
qed

text \<open>
  Claim C7. The handlers take no timestamp from the request and compare nothing: they
  assign the clock's time to \<^verbatim>\<open>lastReadAt\<close>. Bob marks room \<open>r1\<close> read when the clock
  shows 100 and again when it shows 50: the watermark is 100, then 50.
\<close>

theorem watermark_follows_clock_backwards:
  "lastReadAt_of (snd (on_messages_mark_read 100 ''bob'' ''r1'' [] db0)) ''r1'' ''bob'' = Some 100 \<and>
   lastReadAt_of (snd (on_messages_mark_read 50 ''bob'' ''r1'' []
                     (snd (on_messages_mark_read 100 ''bob'' ''r1'' [] db0)))) ''r1'' ''bob''
     = Some 50 \<and>
   lastReadAt_of (snd (markAsRead 50 ''bob'' ''r1'' []
                     (snd (markAsRead 100 ''bob'' ''r1'' [] db0)))) ''r1'' ''bob''
     = Some 50"
  by (simp add: on_messages_mark_read_def markAsRead_def Room_findById_def db0_def room0_def
      isMember_def updateLastRead_def Room_save_def preSave_room_def lastReadAt_of_def Let_def)

text \<open>
  Claim C7, amended. Marking a room read sets the member's watermark to the time of the
  clock at the call, whatever it was before. After two calls it is the time of the second
  call, so it does not decrease when the clock does not: with \<open>t1 \<le> t2\<close> the watermark
  after both calls is at least \<open>t1\<close>.
\<close>

theorem watermark_is_time_of_last_mark_read:
  assumes "roomId \<noteq> []" and "Room_findById d roomId = Some r" and "isMember r userId"
  shows "lastReadAt_of (snd (on_messages_mark_read t1 userId roomId ids d)) roomId userId = Some t1 \<and>
         lastReadAt_of (snd (markAsRead t1 userId roomId ids d)) roomId userId = Some t1 \<and>
         lastReadAt_of (snd (on_messages_mark_read t2 userId roomId ids'
                           (snd (on_messages_mark_read t1 userId roomId ids d)))) roomId userId
           = Some t2 \<and>
         lastReadAt_of (snd (markAsRead t2 userId roomId ids'
                           (snd (markAsRead t1 userId roomId ids d)))) roomId userId
           = Some t2 \<and>
         (t1 \<le> t2 \<longrightarrow>
            (\<exists>w. lastReadAt_of (snd (on_messages_mark_read t2 userId roomId ids'
                     (snd (on_messages_mark_read t1 userId roomId ids d)))) roomId userId = Some w \<and>
                 t1 \<le> w))"
proof -
  from on_messages_mark_read_effect [OF assms, of t1 ids]
  obtain r1 where s1: "Room_findById (snd (on_messages_mark_read t1 userId roomId ids d)) roomId = Some r1"
    "isMember r1 userId"
    "lastReadAt_of (snd (on_messages_mark_read t1 userId roomId ids d)) roomId userId = Some t1"
    by blast
  from on_messages_mark_read_effect [OF assms(1) s1(1,2), of t2 ids']
  have s2: "lastReadAt_of (snd (on_messages_mark_read t2 userId roomId ids'
                           (snd (on_messages_mark_read t1 userId roomId ids d)))) roomId userId
           = Some t2" by blast
  from markAsRead_effect [OF assms(2,3), of t1 ids]
  obtain r2 where c1: "Room_findById (snd (markAsRead t1 userId roomId ids d)) roomId = Some r2"
    "isMember r2 userId"
    "lastReadAt_of (snd (markAsRead t1 userId roomId ids d)) roomId userId = Some t1"
    by blast
  from markAsRead_effect [OF c1(1,2), of t2 ids']
  have c2: "lastReadAt_of (snd (markAsRead t2 userId roomId ids'
                           (snd (markAsRead t1 userId roomId ids d)))) roomId userId
           = Some t2" by blast
  show ?thesis using s1(3) s2 c1(3) c2 by simp
qed

theorem watermark_is_time_of_last_mark_read_witness:
  "''r1'' \<noteq> [] \<and> Room_findById db0 ''r1'' = Some room0 \<and> isMember room0 ''bob'' \<and>
   lastReadAt_of db0 ''r1'' ''bob'' = Some 0 \<and>
   lastReadAt_of (snd (on_messages_mark_read 100 ''bob'' ''r1'' [''m1''] db0)) ''r1'' ''bob'' = Some 100 \<and>
   lastReadAt_of (snd (markAsRead 200 ''bob'' ''r1'' []
                     (snd (markAsRead 100 ''bob'' ''r1'' [''m1''] db0)))) ''r1'' ''bob''
     = Some 200 \<and> (100::int) \<le> 200"
proof -
  have found: "Room_findById db0 ''r1'' = Some room0"
    by (simp add: Room_findById_def db0_def room0_def)
  have member: "isMember room0 ''bob''"
    by (simp add: isMember_def room0_def)
  have before: "lastReadAt_of db0 ''r1'' ''bob'' = Some 0"
    by (simp add: lastReadAt_of_def found) (simp add: room0_def)
  from watermark_is_time_of_last_mark_read
    [of "''r1''" db0 room0 "''bob''" 100 "[''m1'']" 200 "[]", OF _ found member]
  show ?thesis using found member before by simp
qed

subsection \<open>Status changes\<close>

lemma User_findById_save:
  assumes "User_findById d (user_id u') = Some u"
  shows "User_findById (User_save u' d) (user_id u') = Some u'"
  using assms find_map_replace [of user_id u' "User d" u]
  by (auto simp: User_findById_def User_save_def)

text \<open>
  Claim C8. The REST route validates the status against \<^verbatim>\<open>online\<close>, \<^verbatim>\<open>away\<close>, \<^verbatim>\<open>busy\<close>
  and \<^verbatim>\<open>offline\<close>: Alice's request to become \<^verbatim>\<open>offline\<close> is answered 200 and stored,
  with her last-seen time set.
\<close>

theorem rest_status_accepts_offline:
  "updateStatus_controller 5000 alice ''offline'' db0 =
     (Response 200 ''Status updated successfully'' (StatusData ''offline'' 5000),
      db0\<lparr>User := [alice\<lparr>status := ''offline'', lastSeen := 5000\<rparr>, bob, carol, mallory]\<rparr>)"
  by (simp add: updateStatus_controller_def updateStatusValidation_def updateStatus_def
      User_save_def db0_def alice_def bob_def carol_def mallory_def Let_def)

text \<open>
  Claim C8, amended. The socket event \<^verbatim>\<open>status:update\<close> is accepted, stored and
  broadcast exactly when the status is \<^verbatim>\<open>online\<close>, \<^verbatim>\<open>away\<close> or \<^verbatim>\<open>busy\<close>; any other
  value, \<^verbatim>\<open>offline\<close> included, is answered with the error \<^verbatim>\<open>Invalid status\<close> and changes
  nothing. The REST request is accepted and stored for these three and for \<^verbatim>\<open>offline\<close>
  (which also sets the last-seen time); any other value is answered 400 and changes
  nothing. A status that is accepted is the stored status of the user afterwards.
\<close>

theorem status_change_accepted_values:
  "on_status_update now u s d =
     (if s \<in> set [''online'', ''away'', ''busy'']
      then ([Emit ToAll ''user:status'' (UserStatusData (user_id u) s),
             Emit ToSocket ''status:updated'' (StatusData s (lastSeen u))],
            User_save (u\<lparr>status := s\<rparr>) d)
      else ([emitError ''Invalid status''], d)) \<and>
   updateStatus_controller now u s d =
     (if s \<in> set [''online'', ''away'', ''busy'']
      then (Response 200 ''Status updated successfully'' (StatusData s (lastSeen u)),
            User_save (u\<lparr>status := s\<rparr>) d)
      else if s = ''offline''
      then (Response 200 ''Status updated successfully'' (StatusData ''offline'' now),
            User_save (u\<lparr>status := ''offline'', lastSeen := now\<rparr>) d)
      else (Response 400 ''Validation failed'' NoData, d)) \<and>
   (\<forall>u0. User_findById d (user_id u) = Some u0 \<longrightarrow>
      map_option status (User_findById (User_save (u\<lparr>status := s\<rparr>) d) (user_id u)) = Some s \<and>
      map_option status
        (User_findById (User_save (u\<lparr>status := s, lastSeen := now\<rparr>) d) (user_id u)) = Some s)"
proof (intro conjI allI impI)
  show "on_status_update now u s d =
     (if s \<in> set [''online'', ''away'', ''busy'']
      then ([Emit ToAll ''user:status'' (UserStatusData (user_id u) s),
             Emit ToSocket ''status:updated'' (StatusData s (lastSeen u))],
            User_save (u\<lparr>status := s\<rparr>) d)
      else ([emitError ''Invalid status''], d))"
    by (auto simp: on_status_update_def updateStatus_def Let_def)
  show "updateStatus_controller now u s d =
     (if s \<in> set [''online'', ''away'', ''busy'']
      then (Response 200 ''Status updated successfully'' (StatusData s (lastSeen u)),
            User_save (u\<lparr>status := s\<rparr>) d)
      else if s = ''offline''
      then (Response 200 ''Status updated successfully'' (StatusData ''offline'' now),
            User_save (u\<lparr>status := ''offline'', lastSeen := now\<rparr>) d)
      else (Response 400 ''Validation failed'' NoData, d))"
    by (auto simp: updateStatus_controller_def updateStatusValidation_def updateStatus_def Let_def)
next
  fix u0 assume u0: "User_findById d (user_id u) = Some u0"
  show "map_option status (User_findById (User_save (u\<lparr>status := s\<rparr>) d) (user_id u)) = Some s"
    using User_findById_save [of d "u\<lparr>status := s\<rparr>" u0] u0 by simp
  show "map_option status
        (User_findById (User_save (u\<lparr>status := s, lastSeen := now\<rparr>) d) (user_id u)) = Some s"
    using User_findById_save [of d "u\<lparr>status := s, lastSeen := now\<rparr>" u0] u0 by simp
qed

theorem status_change_accepted_values_witness:
  "User_findById db0 (user_id alice) = Some alice \<and>
   on_status_update 5000 alice ''busy'' db0 =
     ([Emit ToAll ''user:status'' (UserStatusData ''alice'' ''busy''),
       Emit ToSocket ''status:updated'' (StatusData ''busy'' 0)],
      User_save (alice\<lparr>status := ''busy''\<rparr>) db0) \<and>
   map_option status (User_findById (User_save (alice\<lparr>status := ''busy''\<rparr>) db0) ''alice'')
     = Some ''busy'' \<and>
   on_status_update 5000 alice ''offline'' db0 = ([emitError ''Invalid status''], db0) \<and>
   updateStatus_controller 5000 alice ''invisible'' db0 =
     (Response 400 ''Validation failed'' NoData, db0)"
proof -
  have found: "User_findById db0 (user_id alice) = Some alice"
    by (simp add: User_findById_def db0_def alice_def)
  have a: "user_id alice = ''alice''" "lastSeen alice = 0" by (simp_all add: alice_def)
  note busy = status_change_accepted_values [of 5000 alice "''busy''" db0]
  note offline = status_change_accepted_values [of 5000 alice "''offline''" db0]
  note invisible = status_change_accepted_values [of 5000 alice "''invisible''" db0]
  have "on_status_update 5000 alice ''busy'' db0 =
     ([Emit ToAll ''user:status'' (UserStatusData ''alice'' ''busy''),
       Emit ToSocket ''status:updated'' (StatusData ''busy'' 0)],
      User_save (alice\<lparr>status := ''busy''\<rparr>) db0)"
    using busy [THEN conjunct1] by (simp add: a)
  moreover have "map_option status
      (User_findById (User_save (alice\<lparr>status := ''busy''\<rparr>) db0) ''alice'') = Some ''busy''"
    using busy [THEN conjunct2, THEN conjunct2, THEN spec, THEN mp, OF found, THEN conjunct1]
    by (simp add: a)
  moreover have "on_status_update 5000 alice ''offline'' db0 = ([emitError ''Invalid status''], db0)"
    using offline [THEN conjunct1] by simp
  moreover have "updateStatus_controller 5000 alice ''invisible'' db0 =
     (Response 400 ''Validation failed'' NoData, db0)"
    using invisible [THEN conjunct2, THEN conjunct1] by simp
  ultimately show ?thesis using found by simp
qed

subsection \<open>Direct rooms\<close>

lemma Room_insert_Inr:
  assumes "Room_insert now r d = Inr (r', d')"
  shows "r' = preSave_room now r" and "d' = d\<lparr>Room := Room d @ [preSave_room now r]\<rparr>"
    and "validRoom r"
  using assms by (auto simp: Room_insert_def Let_def split: if_splits)

lemma createDirectRoom_found:
  assumes "createDirectRoom newId now a b d = Inr (r, d')"
  shows "find (\<lambda>r. room_type r = Direct \<and> isMember r a \<and> isMember r b) (Room d') = Some r"
    and "User d' = User d" and "Message d' = Message d"
proof -
  let ?p = "\<lambda>r. room_type r = Direct \<and> isMember r a \<and> isMember r b"
  have "find ?p (Room d') = Some r \<and> User d' = User d \<and> Message d' = Message d"
  proof (cases "find ?p (Room d)")
    case (Some e)
    with assms show ?thesis by (simp add: createDirectRoom_def)
  next
    case None
    let ?new = "newDirectRoom newId now a b"
    from None assms have ins: "Room_insert now ?new d = Inr (r, d')"
      by (simp add: createDirectRoom_def)
    note Room_insert_Inr(1,2) [OF ins]
    moreover have "?p (preSave_room now ?new)"
      by (simp add: preSave_room_def isMember_def newDirectRoom_def)
    ultimately show ?thesis using None by (simp add: find_append_new)
  qed
  then show "find ?p (Room d') = Some r" and "User d' = User d" and "Message d' = Message d"
    by simp_all
qed

lemma createDirectRoom_again:
  assumes "createDirectRoom newId1 t1 a b d = Inr (r, d1)"
  shows "createDirectRoom newId2 t2 a b d1 = Inr (r, d1)"
    and "createDirectRoom newId2 t2 b a d1 = Inr (r, d1)"
proof -
  note f = createDirectRoom_found(1) [OF assms]
  then show "createDirectRoom newId2 t2 a b d1 = Inr (r, d1)"
    by (simp add: createDirectRoom_def)
  have "(\<lambda>r. room_type r = Direct \<and> isMember r b \<and> isMember r a) =
        (\<lambda>r. room_type r = Direct \<and> isMember r a \<and> isMember r b)"
    by auto
  with f show "createDirectRoom newId2 t2 b a d1 = Inr (r, d1)"
    by (simp add: createDirectRoom_def)
qed

lemma User_findById_cong: "User d' = User d \<Longrightarrow> User_findById d' i = User_findById d i"
  by (simp add: User_findById_def)

text \<open>
  Claim C5. When a request for a direct room between two users has returned a room,
  created or found, the next request for the same pair, in either order, returns that
  room and leaves the database as it is: the model's \<^verbatim>\<open>createDirectRoom\<close>, the REST
  controller and the socket handler. (In the response the room carries the name of the
  other user, so the second user's request shows the first user's name.)
\<close>

theorem direct_room_second_request_returns_first:
  "(createDirectRoom newId1 t1 a b d = Inr (r, d1) \<longrightarrow>
      createDirectRoom newId2 t2 a b d1 = Inr (r, d1) \<and>
      createDirectRoom newId2 t2 b a d1 = Inr (r, d1)) \<and>
   (createDirectRoom_controller newId1 t1 a b d = (Response 200 msg (RoomData p), d1) \<longrightarrow>
      createDirectRoom_controller newId2 t2 a b d1 = (Response 200 msg (RoomData p), d1) \<and>
      (\<forall>ua. User_findById d a = Some ua \<and> user_isActive ua \<longrightarrow>
         createDirectRoom_controller newId2 t2 b a d1 =
           (Response 200 msg (RoomData (p\<lparr>name := username ua\<rparr>)), d1))) \<and>
   (on_room_create_direct newId1 t1 a b d =
      ([Emit (ToUser b) ''room:direct_created'' (IdData i),
        Emit ToSocket ''room:direct_created'' (RoomData p)], d1) \<longrightarrow>
      on_room_create_direct newId2 t2 a b d1 =
        ([Emit (ToUser b) ''room:direct_created'' (IdData i),
          Emit ToSocket ''room:direct_created'' (RoomData p)], d1))"
proof (intro conjI impI allI)
  assume "createDirectRoom newId1 t1 a b d = Inr (r, d1)"
  then show "createDirectRoom newId2 t2 a b d1 = Inr (r, d1)"
    and "createDirectRoom newId2 t2 b a d1 = Inr (r, d1)"
    by (rule createDirectRoom_again)+
next
  assume ok: "createDirectRoom_controller newId1 t1 a b d = (Response 200 msg (RoomData p), d1)"
  then obtain ub r0 where ne: "b \<noteq> a" and ub: "User_findById d b = Some ub" "user_isActive ub"
    and c: "createDirectRoom newId1 t1 a b d = Inr (r0, d1)"
    and p: "p = r0\<lparr>name := username ub\<rparr>"
    and msg: "msg = ''Direct message room created successfully''"
    by (auto simp: createDirectRoom_controller_def split: if_splits option.splits sum.splits)
  have users: "User_findById d1 x = User_findById d x" for x
    using createDirectRoom_found(2) [OF c] by (rule User_findById_cong)
  show "createDirectRoom_controller newId2 t2 a b d1 = (Response 200 msg (RoomData p), d1)"
    using ne ub p msg createDirectRoom_again(1) [OF c, of newId2 t2]
    by (simp add: createDirectRoom_controller_def users)
  fix ua assume "User_findById d a = Some ua \<and> user_isActive ua"
  then show "createDirectRoom_controller newId2 t2 b a d1 =
           (Response 200 msg (RoomData (p\<lparr>name := username ua\<rparr>)), d1)"
    using ne p msg createDirectRoom_again(2) [OF c, of newId2 t2]
    by (auto simp: createDirectRoom_controller_def users)
next
  assume ok: "on_room_create_direct newId1 t1 a b d =
      ([Emit (ToUser b) ''room:direct_created'' (IdData i),
        Emit ToSocket ''room:direct_created'' (RoomData p)], d1)"
  then obtain ub r0 where ne: "b \<noteq> []" "b \<noteq> a"
    and ub: "User_findById d b = Some ub" "user_isActive ub"
    and c: "createDirectRoom newId1 t1 a b d = Inr (r0, d1)"
    and p: "p = r0\<lparr>name := username ub\<rparr>" "i = room_id r0"
    by (auto simp: on_room_create_direct_def emitError_def
        split: if_splits option.splits sum.splits)
  have users: "User_findById d1 x = User_findById d x" for x
    using createDirectRoom_found(2) [OF c] by (rule User_findById_cong)
  show "on_room_create_direct newId2 t2 a b d1 =
        ([Emit (ToUser b) ''room:direct_created'' (IdData i),
          Emit ToSocket ''room:direct_created'' (RoomData p)], d1)"
    using ne ub p createDirectRoom_again(1) [OF c, of newId2 t2]
    by (simp add: on_room_create_direct_def users)
qed

theorem direct_room_second_request_returns_first_witness:
  "createDirectRoom ''r2'' 7000 ''alice'' ''bob'' db0 = Inr (direct0, db_direct) \<and>
   createDirectRoom ''r3'' 8000 ''alice'' ''bob'' db_direct = Inr (direct0, db_direct) \<and>
   createDirectRoom ''r3'' 8000 ''bob'' ''alice'' db_direct = Inr (direct0, db_direct) \<and>
   createDirectRoom_controller ''r2'' 7000 ''alice'' ''bob'' db0 =
     (Response 200 ''Direct message room created successfully''
        (RoomData (direct0\<lparr>name := ''Bob''\<rparr>)), db_direct) \<and>
   createDirectRoom_controller ''r3'' 8000 ''alice'' ''bob'' db_direct =
     (Response 200 ''Direct message room created successfully''
        (RoomData (direct0\<lparr>name := ''Bob''\<rparr>)), db_direct) \<and>
   User_findById db0 ''alice'' = Some alice \<and> user_isActive alice \<and>
   createDirectRoom_controller ''r3'' 8000 ''bob'' ''alice'' db_direct =
     (Response 200 ''Direct message room created successfully''
        (RoomData (direct0\<lparr>name := ''Alice''\<rparr>)), db_direct)"
proof -
  have first: "createDirectRoom ''r2'' 7000 ''alice'' ''bob'' db0 = Inr (direct0, db_direct)"
    by (simp add: createDirectRoom_def newDirectRoom_def Room_insert_def validRoom_def
        directKeyConflict_def preSave_room_def db0_def room0_def direct0_def db_direct_def
        isMember_def Let_def)
  have alice: "User_findById db0 ''alice'' = Some alice" "user_isActive alice"
    "username alice = ''Alice''"
    by (simp_all add: User_findById_def db0_def alice_def)
  have bob: "User_findById db0 ''bob'' = Some bob" "user_isActive bob" "username bob = ''Bob''"
    by (simp_all add: User_findById_def db0_def alice_def bob_def)
  have ctl: "createDirectRoom_controller ''r2'' 7000 ''alice'' ''bob'' db0 =
     (Response 200 ''Direct message room created successfully''
        (RoomData (direct0\<lparr>name := ''Bob''\<rparr>)), db_direct)"
    by (simp add: createDirectRoom_controller_def first bob)
  note T = direct_room_second_request_returns_first
    [of "''r2''" 7000 "''alice''" "''bob''" db0 direct0 db_direct "''r3''" 8000
        "''Direct message room created successfully''" "direct0\<lparr>name := ''Bob''\<rparr>"]
  note again = T [THEN conjunct1, THEN mp, OF first]
  note ctl_again = T [THEN conjunct2, THEN conjunct1, THEN mp, OF ctl]
  have swapped: "createDirectRoom_controller ''r3'' 8000 ''bob'' ''alice'' db_direct =
     (Response 200 ''Direct message room created successfully''
        (RoomData (direct0\<lparr>name := ''Alice''\<rparr>)), db_direct)"
    using ctl_again [THEN conjunct2, THEN spec, THEN mp, OF conjI, OF alice(1,2)]
    by (simp add: alice(3))
  show ?thesis
    using first again ctl ctl_again [THEN conjunct1] alice(1,2) swapped by simp
qed

subsection \<open>One request, one change of the room collection\<close>

lemma Room_written_add: "User_addJoinedRoom u i d = Inr d' \<Longrightarrow> Room d' = Room d"
  by (auto simp: User_addJoinedRoom_def split: sum.splits)

lemma Room_written_pull: "User_pullJoinedRoom u i d = Inr d' \<Longrightarrow> Room d' = Room d"
  by (auto simp: User_pullJoinedRoom_def split: sum.splits)

lemma Room_written_markRead [simp]: "Room (Message_markRead now u i ids d) = Room d"
  by (simp add: Message_markRead_def)

lemma room_id_kept [simp]:
  "room_id (preSave_room now r) = room_id r"
  "room_id (removeMember u r) = room_id r"
  by (simp_all add: preSave_room_def removeMember_def)

lemma room_id_addMember: "addMember t u ro r = Inr r1 \<Longrightarrow> room_id r1 = room_id r"
  by (auto simp: addMember_def split: option.splits if_splits sum.splits)

lemma room_id_updateMemberRole: "updateMemberRole u ro r = Inr r1 \<Longrightarrow> room_id r1 = room_id r"
  by (auto simp: updateMemberRole_def split: option.splits)

lemma room_id_updateLastRead: "updateLastRead t u r = Some r1 \<Longrightarrow> room_id r1 = room_id r"
  by (auto simp: updateLastRead_def split: option.splits)

























text \<open>
  What \<open>updateRoom\<close> writes when it carries the request out: the room found, with its
  members as before.
\<close>

lemma applyUpdate_kept [simp]:
  "room_id (applyUpdate b r) = room_id r"
  "creator (applyUpdate b r) = creator r"
  "members (applyUpdate b r) = members r"
  by (simp_all add: applyUpdate_def Let_def split: option.splits)





subsection \<open>The member limit\<close>









subsection \<open>Example runs\<close>









subsection \<open>The member limit over sequences of requests\<close>




subsection \<open>The creator of a room\<close>

text \<open>
  A removal, a role update or a leave whose target is the creator of the room, given as
  the string of the creator's id, is answered with an error and leaves the database as
  it is, over REST and over the socket.
\<close>

lemma creator_protected_from_plain_id:
  assumes "Room_findById d roomId = Some r"
  shows "removeMember_controller now userId roomId (Some (Str (creator r))) d =
        (if isAdmin r userId then (Response 400 ''Cannot remove room creator'' NoData, d)
         else (Response 403 ''Admin privileges required'' NoData, d))"
    and "updateMemberRole_controller now userId roomId (Str (creator r)) ro d =
        (if \<not> wellFormed (creator r) then (Response 400 ''Validation failed'' NoData, d)
         else if isAdmin r userId then (Response 400 ''Cannot change creator role'' NoData, d)
         else (Response 403 ''Admin privileges required'' NoData, d))"
    and "leaveRoom now (creator r) roomId d =
        (if isMember r (creator r)
         then (Response 400
                 ''Room creator cannot leave the room. Transfer ownership or delete the room instead.''
                 NoData, d)
         else (Response 400 ''You are not a member of this room'' NoData, d))"
    and "\<exists>msg. on_room_remove_member now userId roomId (Str (creator r)) d = ([emitError msg], d)"
    and "\<exists>msg. on_room_update_role now userId roomId (Str (creator r)) sro d = ([emitError msg], d)"
proof -
  show "removeMember_controller now userId roomId (Some (Str (creator r))) d =
        (if isAdmin r userId then (Response 400 ''Cannot remove room creator'' NoData, d)
         else (Response 403 ''Admin privileges required'' NoData, d))"
    using assms by (simp add: removeMember_controller_def)
  show "updateMemberRole_controller now userId roomId (Str (creator r)) ro d =
        (if \<not> wellFormed (creator r) then (Response 400 ''Validation failed'' NoData, d)
         else if isAdmin r userId then (Response 400 ''Cannot change creator role'' NoData, d)
         else (Response 403 ''Admin privileges required'' NoData, d))"
    using assms by (simp add: updateMemberRole_controller_def)
  show "leaveRoom now (creator r) roomId d =
        (if isMember r (creator r)
         then (Response 400
                 ''Room creator cannot leave the room. Transfer ownership or delete the room instead.''
                 NoData, d)
         else (Response 400 ''You are not a member of this room'' NoData, d))"
    using assms by (simp add: leaveRoom_def)
  show "\<exists>msg. on_room_remove_member now userId roomId (Str (creator r)) d = ([emitError msg], d)"
    using assms by (auto simp: on_room_remove_member_def)
  show "\<exists>msg. on_room_update_role now userId roomId (Str (creator r)) sro d = ([emitError msg], d)"
    using assms by (cases sro) (auto simp: on_room_update_role_def)
qed

lemma club_found: "Room_findById db_club ''r1'' = Some club"
  by (simp add: Room_findById_def db_club_def club_def team_room_def)

lemma club_fields:
  "creator club = ''alice''" "isAdmin club ''bob''" "room_id club = ''r1''"
  "map (\<lambda>m. (user m, role m)) (members club) =
     [(''alice'', Admin), (''bob'', Admin), (''carol'', Member)]"
  by (simp_all add: club_def team_room_def isAdmin_def)

text \<open>
  Claim C6. The room \<open>r1\<close> has the creator Alice and a second admin, Bob. Bob's requests
  to remove Alice or to change her role are refused when they name her by the string of
  her id. They are carried out when they name her by the array that holds her id: the
  test for the creator compares the value of the payload with \<^verbatim>\<open>===\<close>, which no array
  satisfies, and the model's methods then find her by \<^verbatim>\<open>toString()\<close> of the array, which is
  her id. After the removal the creator is no member of her room; after the role update
  she is a plain member. And the REST removal that names her by her id with another case
  of its letters is answered with 200: she stays a member, and the room is pulled from
  her joined rooms.
\<close>

theorem creator_removed_through_array_id:
  "Room_findById db_club ''r1'' = Some club \<and> creator club = ''alice'' \<and>
   map (\<lambda>m. (user m, role m)) (members club) =
     [(''alice'', Admin), (''bob'', Admin), (''carol'', Member)] \<and>
   on_room_remove_member 5000 ''bob'' ''r1'' (Str ''alice'') db_club =
     ([emitError ''Cannot remove room creator''], db_club) \<and>
   removeMember_controller 5000 ''bob'' ''r1'' (Some (Str ''alice'')) db_club =
     (Response 400 ''Cannot remove room creator'' NoData, db_club) \<and>
   on_room_update_role 5000 ''bob'' ''r1'' (Str ''alice'') (Some Member) db_club =
     ([emitError ''Cannot change creator role''], db_club) \<and>
   updateMemberRole_controller 5000 ''bob'' ''r1'' (Str ''alice'') Member db_club =
     (Response 400 ''Cannot change creator role'' NoData, db_club) \<and>
   fst (on_room_remove_member 5000 ''bob'' ''r1'' (Arr [''alice'']) db_club) =
     [Emit (ToRoom ''r1'') ''room:member_removed'' (RemovedData ''r1'' (Arr [''alice''])),
      Emit (ToUserKey (Arr [''alice''])) ''room:removed'' (IdData ''r1''),
      Emit ToSocket ''room:remove_member:success'' (IdData ''r1'')] \<and>
   map (\<lambda>r. map user (members r))
     (Room (snd (on_room_remove_member 5000 ''bob'' ''r1'' (Arr [''alice'']) db_club))) =
     [[''bob'', ''carol'']] \<and>
   fst (removeMember_controller 5000 ''bob'' ''r1'' (Some (Arr [''alice''])) db_club) =
     Response 200 ''Member removed successfully'' NoData \<and>
   map (\<lambda>r. map user (members r))
     (Room (snd (removeMember_controller 5000 ''bob'' ''r1'' (Some (Arr [''alice''])) db_club))) =
     [[''bob'', ''carol'']] \<and>
   map (\<lambda>r. map (\<lambda>m. (user m, role m)) (members r))
     (Room (snd (on_room_update_role 5000 ''bob'' ''r1'' (Arr [''alice'']) (Some Member) db_club))) =
     [[(''alice'', Member), (''bob'', Admin), (''carol'', Member)]] \<and>
   fst (updateMemberRole_controller 5000 ''bob'' ''r1'' (Arr [''alice'']) Member db_club) =
     Response 200 ''Member role updated successfully'' NoData \<and>
   map (\<lambda>r. map (\<lambda>m. (user m, role m)) (members r))
     (Room (snd (updateMemberRole_controller 5000 ''bob'' ''r1'' (Arr [''alice'']) Member db_club))) =
     [[(''alice'', Member), (''bob'', Admin), (''carol'', Member)]] \<and>
   fst (removeMember_controller 5000 ''bob'' ''r1'' (Some (Str ''Alice'')) db_club) =
     Response 200 ''Member removed successfully'' NoData \<and>
   map (\<lambda>r. map user (members r))
     (Room (snd (removeMember_controller 5000 ''bob'' ''r1'' (Some (Str ''Alice'')) db_club))) =
     [[''alice'', ''bob'', ''carol'']] \<and>
   map joinedRooms (User db_club) = [[''r1''], [''r1''], [''r1''], []] \<and>
   map joinedRooms
     (User (snd (removeMember_controller 5000 ''bob'' ''r1'' (Some (Str ''Alice'')) db_club))) =
     [[], [''r1''], [''r1''], []]"
proof -
  note defs = Room_findById_def db_club_def club_def team_room_def isAdmin_def isMember_def
    removeMember_def updateMemberRole_def Room_save_def preSave_room_def
    User_pullJoinedRoom_def User_findById_cast_def wellFormed_def lowerCase_def
    alice_def bob_def carol_def mallory_def Let_def
  have plain:
    "on_room_remove_member 5000 ''bob'' ''r1'' (Str ''alice'') db_club =
       ([emitError ''Cannot remove room creator''], db_club)"
    "removeMember_controller 5000 ''bob'' ''r1'' (Some (Str ''alice'')) db_club =
       (Response 400 ''Cannot remove room creator'' NoData, db_club)"
    "on_room_update_role 5000 ''bob'' ''r1'' (Str ''alice'') (Some Member) db_club =
       ([emitError ''Cannot change creator role''], db_club)"
    "updateMemberRole_controller 5000 ''bob'' ''r1'' (Str ''alice'') Member db_club =
       (Response 400 ''Cannot change creator role'' NoData, db_club)"
    by (simp_all add: on_room_remove_member_def removeMember_controller_def
        on_room_update_role_def updateMemberRole_controller_def club_found club_fields
        wellFormed_def)
  have socket_remove:
    "fst (on_room_remove_member 5000 ''bob'' ''r1'' (Arr [''alice'']) db_club) =
     [Emit (ToRoom ''r1'') ''room:member_removed'' (RemovedData ''r1'' (Arr [''alice''])),
      Emit (ToUserKey (Arr [''alice''])) ''room:removed'' (IdData ''r1''),
      Emit ToSocket ''room:remove_member:success'' (IdData ''r1'')]"
    "map (\<lambda>r. map user (members r))
     (Room (snd (on_room_remove_member 5000 ''bob'' ''r1'' (Arr [''alice'']) db_club))) =
     [[''bob'', ''carol'']]"
    by (simp_all add: on_room_remove_member_def defs)
  have rest_remove:
    "fst (removeMember_controller 5000 ''bob'' ''r1'' (Some (Arr [''alice''])) db_club) =
     Response 200 ''Member removed successfully'' NoData"
    "map (\<lambda>r. map user (members r))
     (Room (snd (removeMember_controller 5000 ''bob'' ''r1'' (Some (Arr [''alice''])) db_club))) =
     [[''bob'', ''carol'']]"
    by (simp_all add: removeMember_controller_def defs)
  have socket_role:
    "map (\<lambda>r. map (\<lambda>m. (user m, role m)) (members r))
     (Room (snd (on_room_update_role 5000 ''bob'' ''r1'' (Arr [''alice'']) (Some Member) db_club))) =
     [[(''alice'', Member), (''bob'', Admin), (''carol'', Member)]]"
    by (simp add: on_room_update_role_def defs)
  have rest_role:
    "fst (updateMemberRole_controller 5000 ''bob'' ''r1'' (Arr [''alice'']) Member db_club) =
     Response 200 ''Member role updated successfully'' NoData"
    "map (\<lambda>r. map (\<lambda>m. (user m, role m)) (members r))
     (Room (snd (updateMemberRole_controller 5000 ''bob'' ''r1'' (Arr [''alice'']) Member db_club))) =
     [[(''alice'', Member), (''bob'', Admin), (''carol'', Member)]]"
    by (simp_all add: updateMemberRole_controller_def defs)
  have respelled:
    "fst (removeMember_controller 5000 ''bob'' ''r1'' (Some (Str ''Alice'')) db_club) =
     Response 200 ''Member removed successfully'' NoData"
    "map (\<lambda>r. map user (members r))
     (Room (snd (removeMember_controller 5000 ''bob'' ''r1'' (Some (Str ''Alice'')) db_club))) =
     [[''alice'', ''bob'', ''carol'']]"
    "map joinedRooms (User db_club) = [[''r1''], [''r1''], [''r1''], []]"
    "map joinedRooms
     (User (snd (removeMember_controller 5000 ''bob'' ''r1'' (Some (Str ''Alice'')) db_club))) =
     [[], [''r1''], [''r1''], []]"
    by (simp_all add: removeMember_controller_def defs)
  from club_found club_fields(1,4) plain socket_remove rest_remove socket_role rest_role respelled
  show ?thesis by (intro conjI)
qed

end
